theory Spec2Isabelle
  imports Main "HOL-Library.Word"
begin

section \<open>Values of the JavaScript runtime\<close>

text \<open>
  The provider (\<^verbatim>\<open>PhantomContextProvider\<close>) is a React component written in TypeScript.
  A \<^verbatim>\<open>Uint8Array\<close> is a list of bytes, a string a \<open>string\<close>. What \<^verbatim>\<open>JSON.parse\<close> returns
  (typed \<^verbatim>\<open>any\<close>) is a \<open>jsval\<close>; a number is carried as its text, since the provider never
  computes with one.
\<close>

type_synonym bytes = "8 word list"

datatype jsval =
    JUndefined
  | JNull
  | JBool bool
  | JNum string
  | JStr string
  | JArr "jsval list"
  | JObj "(string \<times> jsval) list"

text \<open>
  The three errors the provider constructs itself, and \<open>Foreign m\<close> for an exception with
  message \<open>m\<close> that a library or the runtime raised and the provider lets through.
\<close>

datatype error =
    NotConnected
  | RemoteError
  | DecryptionFailed
  | Foreign string

fun message :: "error \<Rightarrow> string" where
  "message NotConnected = ''Wallet is not connected''"
| "message RemoteError = ''Error in Phantom Response''"
| "message DecryptionFailed = ''Unable to decrypt data''"
| "message (Foreign m) = m"

text \<open>
  Reading a property \<^verbatim>\<open>v.k\<close>, for the property names the provider reads (\<^verbatim>\<open>session\<close>,
  \<^verbatim>\<open>public_key\<close>, \<^verbatim>\<open>transaction\<close>, \<^verbatim>\<open>signature\<close>): a TypeError on \<^verbatim>\<open>null\<close> and
  \<^verbatim>\<open>undefined\<close>, the member of an object, \<^verbatim>\<open>undefined\<close> on everything else.
\<close>

fun field_of :: "jsval \<Rightarrow> string \<Rightarrow> error + jsval" where
  "field_of JUndefined k = Inl (Foreign ''TypeError: Cannot read properties of undefined'')"
| "field_of JNull k = Inl (Foreign ''TypeError: Cannot read properties of null'')"
| "field_of (JObj kvs) k = Inr (case map_of kvs k of None \<Rightarrow> JUndefined | Some v \<Rightarrow> v)"
| "field_of v k = Inr JUndefined"

text \<open>\<^verbatim>\<open>URLSearchParams\<close>: \<^verbatim>\<open>get\<close> returns the first value of a name, or \<^verbatim>\<open>null\<close>.\<close>

type_synonym URLSearchParams = "(string \<times> string) list"

definition params_get :: "URLSearchParams \<Rightarrow> string \<Rightarrow> string option" where
  "params_get ps k = map_of ps k"

text \<open>Truthiness of a \<^verbatim>\<open>string | null\<close>: \<^verbatim>\<open>null\<close> and the empty string are falsy.\<close>

fun truthy :: "string option \<Rightarrow> bool" where
  "truthy None = False"
| "truthy (Some s) = (s \<noteq> [])"

text \<open>The value a \<^verbatim>\<open>string | null\<close> is when it is handed on under a \<^verbatim>\<open>!\<close> assertion.\<close>

fun nullable :: "string option \<Rightarrow> jsval" where
  "nullable None = JNull"
| "nullable (Some s) = JStr s"

record URL =
  pathname :: string
  searchParams :: URLSearchParams

record BoxKeyPair =
  kp_publicKey :: bytes
  kp_secretKey :: bytes

datatype PublicKey = PublicKey bytes

section \<open>The libraries\<close>

text \<open>
  tweetnacl, bs58, \<^verbatim>\<open>@solana/web3.js\<close>, \<^verbatim>\<open>JSON\<close>, \<^verbatim>\<open>Buffer\<close>, \<^verbatim>\<open>URL\<close> and \<^verbatim>\<open>RegExp\<close> are not part
  of the repository: every function below takes them as the parameter \<open>L\<close>. A library
  function that can throw returns \<open>Inl m\<close>, \<open>m\<close> the message of what it threw; each receives
  exactly what the provider passes it, \<^verbatim>\<open>null\<close> and \<^verbatim>\<open>undefined\<close> included. The type \<open>'tx\<close>
  is web3.js's \<^verbatim>\<open>Transaction\<close>.

  \<^item> \<open>string_replace s p r\<close> is \<^verbatim>\<open>s.replace(p, r)\<close>;
  \<^item> \<open>new_URL\<close> is \<^verbatim>\<open>new URL(s)\<close>;
  \<^item> \<open>regexp_test p s\<close> is \<^verbatim>\<open>new RegExp(p).test(s)\<close> (the routes the provider passes are
    the three literals of \<^verbatim>\<open>RedirectRoutes\<close>, for which the constructor does not throw);
  \<^item> \<open>params_toString\<close> is \<^verbatim>\<open>URLSearchParams.toString\<close>;
  \<^item> \<open>box_open_after\<close> is \<^verbatim>\<open>nacl.box.open.after\<close>: \<open>Inr None\<close> is its \<^verbatim>\<open>null\<close>;
  \<^item> \<open>buffer_from\<close> is \<^verbatim>\<open>Buffer.from\<close> on what \<^verbatim>\<open>JSON.stringify\<close> returned (\<open>None\<close> is
    \<^verbatim>\<open>undefined\<close>), \<open>buffer_toString\<close> is \<^verbatim>\<open>Buffer.from(b).toString('utf8')\<close>;
  \<^item> \<open>serialize\<close> is \<^verbatim>\<open>transaction.serialize({requireAllSignatures: false})\<close>.
\<close>

record 'tx lib =
  string_replace :: "string \<Rightarrow> string \<Rightarrow> string \<Rightarrow> string"
  new_URL :: "string \<Rightarrow> string + URL"
  regexp_test :: "string \<Rightarrow> string \<Rightarrow> bool"
  params_toString :: "URLSearchParams \<Rightarrow> string"
  bs58_encode :: "bytes \<Rightarrow> string"
  bs58_decode :: "jsval \<Rightarrow> string + bytes"
  box_before :: "bytes \<Rightarrow> bytes \<Rightarrow> string + bytes"
  box_after :: "bytes \<Rightarrow> bytes \<Rightarrow> bytes \<Rightarrow> string + bytes"
  box_open_after :: "bytes \<Rightarrow> bytes \<Rightarrow> bytes \<Rightarrow> string + bytes option"
  JSON_stringify :: "jsval \<Rightarrow> string option"
  JSON_parse :: "string \<Rightarrow> string + jsval"
  buffer_from :: "string option \<Rightarrow> string + bytes"
  buffer_toString :: "bytes \<Rightarrow> string"
  new_PublicKey :: "jsval \<Rightarrow> string + PublicKey"
  serialize :: "'tx \<Rightarrow> string + bytes"
  Transaction_from :: "bytes \<Rightarrow> string + 'tx"

fun lib_call :: "string + 'a \<Rightarrow> error + 'a" where
  "lib_call (Inl m) = Inl (Foreign m)"
| "lib_call (Inr v) = Inr v"

section \<open>Constants and properties of the component\<close>

definition PhantomWalletName :: string where
  "PhantomWalletName = ''Phantom''"

definition PhantomWalletUrl :: string where
  "PhantomWalletUrl = ''https://phantom.app/''"

datatype RedirectRoutes = OnConnect | OnSignTransaction | OnSignMessage

fun redirect_route :: "RedirectRoutes \<Rightarrow> string" where
  "redirect_route OnConnect = ''onConnect''"
| "redirect_route OnSignTransaction = ''onSignTransaction''"
| "redirect_route OnSignMessage = ''onSignMessage''"

datatype RequestRoutes = Connect | SignTransaction | SignMessage

fun request_route :: "RequestRoutes \<Rightarrow> string" where
  "request_route Connect = ''connect''"
| "request_route SignTransaction = ''signTransaction''"
| "request_route SignMessage = ''signMessage''"

datatype ResponseParams = DATA | NONCE | PHANTOM_ENCRYPTION_PUBLIC_KEY

fun response_param :: "ResponseParams \<Rightarrow> string" where
  "response_param DATA = ''data''"
| "response_param NONCE = ''nonce''"
| "response_param PHANTOM_ENCRYPTION_PUBLIC_KEY = ''phantom_encryption_public_key''"

text \<open>The props of the component, \<^verbatim>\<open>Linking\<close> apart.\<close>

record config =
  cluster :: string
  appUrl :: string
  protocol :: string

definition buildUrl :: "'tx lib \<Rightarrow> string \<Rightarrow> URLSearchParams \<Rightarrow> string" where
  "buildUrl L path ps = PhantomWalletUrl @ ''ul/v1/'' @ path @ ''?'' @ params_toString L ps"

section \<open>Encryption of payloads\<close>

text \<open>
  \<^verbatim>\<open>decryptPayload(data, nonce, sharedSecret)\<close>. Its two strings are what
  \<^verbatim>\<open>responseParams.get\<close> returned.
\<close>

definition decryptPayload :: "'tx lib \<Rightarrow> jsval \<Rightarrow> jsval \<Rightarrow> bytes \<Rightarrow> error + jsval" where
  "decryptPayload L data nonce secret =
    (case lib_call (bs58_decode L data) of
       Inl e \<Rightarrow> Inl e
     | Inr box \<Rightarrow>
        (case lib_call (bs58_decode L nonce) of
           Inl e \<Rightarrow> Inl e
         | Inr n \<Rightarrow>
            (case lib_call (box_open_after L box n secret) of
               Inl e \<Rightarrow> Inl e
             | Inr None \<Rightarrow> Inl DecryptionFailed
             | Inr (Some decryptedData) \<Rightarrow>
                 lib_call (JSON_parse L (buffer_toString L decryptedData)))))"

text \<open>
  \<^verbatim>\<open>encryptPayload(payload, sharedSecret)\<close>. The argument \<open>nonce\<close> is what
  \<^verbatim>\<open>nacl.randomBytes(24)\<close> drew in this call.
\<close>

definition encryptPayload :: "'tx lib \<Rightarrow> bytes \<Rightarrow> jsval \<Rightarrow> bytes \<Rightarrow> error + bytes \<times> bytes" where
  "encryptPayload L nonce payload secret =
    (case lib_call (buffer_from L (JSON_stringify L payload)) of
       Inl e \<Rightarrow> Inl e
     | Inr msg \<Rightarrow>
        (case lib_call (box_after L msg nonce secret) of
           Inl e \<Rightarrow> Inl e
         | Inr encryptedPayload \<Rightarrow> Inr (nonce, encryptedPayload)))"

section \<open>State\<close>

text \<open>
  The four \<^verbatim>\<open>useState\<close> variables of the component. \<open>None\<close> is \<^verbatim>\<open>null\<close>; \<open>session\<close> holds
  whatever \<^verbatim>\<open>connectData.session\<close> was, and starts as \<^verbatim>\<open>null\<close>.
\<close>

record session_state =
  publicKey :: "PublicKey option"
  keypair :: "BoxKeyPair option"
  sharedSecret :: "bytes option"
  session :: jsval

definition initial_state :: session_state where
  "initial_state = \<lparr>publicKey = None, keypair = None, sharedSecret = None, session = JNull\<rparr>"

text \<open>
  A call of one of the four setters. A closure of the component cannot read the current
  state (it sees the values of the render that created it), it can only call setters: what
  a response handler does to the state is the list of its setter calls, in order, up to
  the point where it returned or threw.
\<close>

datatype set_call =
    SetPublicKey "PublicKey option"
  | SetKeypair "BoxKeyPair option"
  | SetSharedSecret "bytes option"
  | SetSession jsval

fun apply_call :: "set_call \<Rightarrow> session_state \<Rightarrow> session_state" where
  "apply_call (SetPublicKey v) s = s\<lparr>publicKey := v\<rparr>"
| "apply_call (SetKeypair v) s = s\<lparr>keypair := v\<rparr>"
| "apply_call (SetSharedSecret v) s = s\<lparr>sharedSecret := v\<rparr>"
| "apply_call (SetSession v) s = s\<lparr>session := v\<rparr>"

definition apply_calls :: "set_call list \<Rightarrow> session_state \<Rightarrow> session_state" where
  "apply_calls cs s = fold apply_call cs s"

text \<open>
  The transport \<^verbatim>\<open>Linking\<close>: the URLs \<^verbatim>\<open>openURL\<close> was called with, oldest first, and the
  subscriptions \<^verbatim>\<open>addEventListener\<close> returned. A subscription is named by its position;
  its entry counts the calls of its \<^verbatim>\<open>remove()\<close>, and its listener is registered as long as
  the count is 0.
\<close>

record linking =
  opened :: "string list"
  subscriptions :: "nat list"

definition addEventListener :: "linking \<Rightarrow> nat \<times> linking" where
  "addEventListener lk =
     (length (subscriptions lk), lk\<lparr>subscriptions := subscriptions lk @ [0]\<rparr>)"

definition event_remove :: "nat \<Rightarrow> linking \<Rightarrow> linking" where
  "event_remove h lk =
     (if h < length (subscriptions lk)
      then lk\<lparr>subscriptions := (subscriptions lk)[h := Suc (subscriptions lk ! h)]\<rparr>
      else lk)"

definition openURL :: "string \<Rightarrow> linking \<Rightarrow> linking" where
  "openURL u lk = lk\<lparr>opened := opened lk @ [u]\<rparr>"

definition registered :: "linking \<Rightarrow> nat \<Rightarrow> bool" where
  "registered lk h = (h < length (subscriptions lk) \<and> subscriptions lk ! h = 0)"

record world =
  hooks :: session_state
  Linking :: linking

definition initial_world :: world where
  "initial_world = \<lparr>hooks = initial_state, Linking = \<lparr>opened = [], subscriptions = []\<rparr>\<rparr>"

section \<open>Waiting for a response\<close>

text \<open>
  A response handler (\<^verbatim>\<open>PhantomResponseHandler<T>\<close>) maps the parameters of the callback
  URL to what it returned or threw, and to the setter calls it made on the way.
\<close>

type_synonym 'a response_handler = "URLSearchParams \<Rightarrow> (error + 'a) \<times> set_call list"

datatype 'a promise_state = Pending | Fulfilled 'a | Rejected error

fun pending :: "'a promise_state \<Rightarrow> bool" where
  "pending Pending = True"
| "pending (Fulfilled v) = False"
| "pending (Rejected e) = False"

text \<open>
  What \<^verbatim>\<open>waitForResponse\<close> returns, with what it closes over: the route and the handler,
  the subscription \<^verbatim>\<open>event\<close>, the promise, and whether the callback given to
  \<^verbatim>\<open>promise.finally\<close> has run.
\<close>

record 'a waiter =
  redirectRoute :: string
  handler :: "'a response_handler"
  event :: nat
  promise :: "'a promise_state"
  finally_done :: bool

definition waitForResponse :: "string \<Rightarrow> 'a response_handler \<Rightarrow> world \<Rightarrow> 'a waiter \<times> world" where
  "waitForResponse route h w =
     (let (ev, lk) = addEventListener (Linking w)
      in (\<lparr>redirectRoute = route, handler = h, event = ev, promise = Pending,
           finally_done = False\<rparr>,
          w\<lparr>Linking := lk\<rparr>))"

text \<open>
  One run of the listener given to \<^verbatim>\<open>Linking.addEventListener\<close>, on the event \<open>u\<close>: it
  throws (\<^verbatim>\<open>new URL\<close> is outside the \<^verbatim>\<open>try\<close>), returns at once, calls \<^verbatim>\<open>reject\<close> or calls
  \<^verbatim>\<open>resolve\<close>.
\<close>

datatype 'a listener_result = Threw error | Ignored | Rejecting error | Resolving 'a

definition listener ::
  "'tx lib \<Rightarrow> config \<Rightarrow> string \<Rightarrow> 'a response_handler \<Rightarrow> string \<Rightarrow> 'a listener_result \<times> set_call list" where
  "listener L cfg route h u =
    (let httpsUrl = string_replace L u (protocol cfg) (appUrl cfg) in
     case lib_call (new_URL L httpsUrl) of
       Inl e \<Rightarrow> (Threw e, [])
     | Inr parsedUrl \<Rightarrow>
        if \<not> regexp_test L route (pathname parsedUrl) then (Ignored, [])
        else
          let params = searchParams parsedUrl in
          if truthy (params_get params ''errorCode'') then (Rejecting RemoteError, [])
          else
            (case h params of
               (Inr v, calls) \<Rightarrow> (Resolving v, calls)
             | (Inl e, calls) \<Rightarrow> (Rejecting e, calls)))"

text \<open>\<^verbatim>\<open>resolve\<close> and \<^verbatim>\<open>reject\<close> settle a pending promise and do nothing to a settled one.\<close>

fun settle :: "'a listener_result \<Rightarrow> 'a promise_state \<Rightarrow> 'a promise_state" where
  "settle (Resolving v) Pending = Fulfilled v"
| "settle (Rejecting e) Pending = Rejected e"
| "settle r s = s"

text \<open>
  The transport hands an event to a listener that is registered; the listener's setter
  calls reach the state whether it returned or threw.
\<close>

definition call_listener :: "'tx lib \<Rightarrow> config \<Rightarrow> string \<Rightarrow> 'a waiter \<times> world \<Rightarrow> 'a waiter \<times> world" where
  "call_listener L cfg u pw =
    (let (p, w) = pw in
     if registered (Linking w) (event p) then
       (let (r, calls) = listener L cfg (redirectRoute p) (handler p) u
        in (p\<lparr>promise := settle r (promise p)\<rparr>, w\<lparr>hooks := apply_calls calls (hooks w)\<rparr>))
     else (p, w))"

text \<open>
  The callback of \<^verbatim>\<open>promise.finally\<close>, \<^verbatim>\<open>event.remove()\<close>, runs once, as a microtask after
  the promise has settled.
\<close>

definition run_finally :: "'a waiter \<times> world \<Rightarrow> 'a waiter \<times> world" where
  "run_finally pw =
    (let (p, w) = pw in
     if pending (promise p) \<or> finally_done p then (p, w)
     else (p\<lparr>finally_done := True\<rparr>, w\<lparr>Linking := event_remove (event p) (Linking w)\<rparr>))"

text \<open>
  One inbound event, delivered in a task of its own: the listener runs, then the
  microtasks. \<open>emit_all\<close> delivers a stream of events, oldest first.
\<close>

definition emit :: "'tx lib \<Rightarrow> config \<Rightarrow> string \<Rightarrow> 'a waiter \<times> world \<Rightarrow> 'a waiter \<times> world" where
  "emit L cfg u pw = run_finally (call_listener L cfg u pw)"

definition emit_all :: "'tx lib \<Rightarrow> config \<Rightarrow> string list \<Rightarrow> 'a waiter \<times> world \<Rightarrow> 'a waiter \<times> world" where
  "emit_all L cfg us pw = fold (emit L cfg) us pw"

text \<open>
  Nothing makes the transport deliver one event per task. A task that delivers several
  events runs the listener on each of them, one after the other, and only then the
  microtasks: the listener has no test of its own for a promise that has settled, so in
  such a task it still runs, and its handler with it, on the events that follow the one
  that settled the promise. \<open>emit_tasks\<close> delivers a stream of tasks, oldest first.
\<close>

definition emit_task :: "'tx lib \<Rightarrow> config \<Rightarrow> string list \<Rightarrow> 'a waiter \<times> world \<Rightarrow> 'a waiter \<times> world" where
  "emit_task L cfg us pw = run_finally (fold (call_listener L cfg) us pw)"

definition emit_tasks ::
  "'tx lib \<Rightarrow> config \<Rightarrow> string list list \<Rightarrow> 'a waiter \<times> world \<Rightarrow> 'a waiter \<times> world" where
  "emit_tasks L cfg ts pw = fold (emit_task L cfg) ts pw"

text \<open>
  What the caller of \<^verbatim>\<open>waitForResponse\<close> holds is the promise \<^verbatim>\<open>promise.finally(...)\<close>
  returned: it settles as \<^verbatim>\<open>promise\<close> did, once the callback has run.
\<close>

definition awaitable :: "'a waiter \<Rightarrow> 'a promise_state" where
  "awaitable p = (if finally_done p then promise p else Pending)"

text \<open>
  The same with two waiters subscribed, \<open>a\<close> before \<open>b\<close>: both listeners run, in the order of
  subscription, then the microtasks.
\<close>

definition emit2 ::
  "'tx lib \<Rightarrow> config \<Rightarrow> string \<Rightarrow> 'a waiter \<times> 'b waiter \<times> world \<Rightarrow> 'a waiter \<times> 'b waiter \<times> world" where
  "emit2 L cfg u abw =
    (let (a, b, w) = abw;
         (a1, w1) = call_listener L cfg u (a, w);
         (b1, w2) = call_listener L cfg u (b, w1);
         (a2, w3) = run_finally (a1, w2);
         (b2, w4) = run_finally (b1, w3)
     in (a2, b2, w4))"

definition emit2_all ::
  "'tx lib \<Rightarrow> config \<Rightarrow> string list \<Rightarrow> 'a waiter \<times> 'b waiter \<times> world \<Rightarrow> 'a waiter \<times> 'b waiter \<times> world" where
  "emit2_all L cfg us abw = fold (emit2 L cfg) us abw"

text \<open>Whether the listener of a waiter on \<open>route\<close> gets past its route test on the event \<open>u\<close>.\<close>

definition matches :: "'tx lib \<Rightarrow> config \<Rightarrow> string \<Rightarrow> string \<Rightarrow> bool" where
  "matches L cfg route u =
    (case new_URL L (string_replace L u (protocol cfg) (appUrl cfg)) of
       Inl m \<Rightarrow> False
     | Inr parsedUrl \<Rightarrow> regexp_test L route (pathname parsedUrl))"

section \<open>The operations of the provider\<close>

text \<open>
  \<^verbatim>\<open>connect\<close>. The argument \<open>dAppKeypair\<close> is what \<^verbatim>\<open>nacl.box.keyPair()\<close> drew in this call.
  \<open>connect_onResponse\<close> is its handler \<^verbatim>\<open>onResponse\<close>.
\<close>

definition connect_onResponse :: "'tx lib \<Rightarrow> BoxKeyPair \<Rightarrow> unit response_handler" where
  "connect_onResponse L dAppKeypair responseParams =
    (case lib_call (bs58_decode L
            (nullable (params_get responseParams (response_param PHANTOM_ENCRYPTION_PUBLIC_KEY)))) of
       Inl e \<Rightarrow> (Inl e, [])
     | Inr phantomKey \<Rightarrow>
        (case lib_call (box_before L phantomKey (kp_secretKey dAppKeypair)) of
           Inl e \<Rightarrow> (Inl e, [])
         | Inr sharedSecretDapp \<Rightarrow>
            (case decryptPayload L
                    (nullable (params_get responseParams (response_param DATA)))
                    (nullable (params_get responseParams (response_param NONCE)))
                    sharedSecretDapp of
               Inl e \<Rightarrow> (Inl e, [])
             | Inr connectData \<Rightarrow>
                (case field_of connectData ''session'' of
                   Inl e \<Rightarrow>
                     (Inl e, [SetKeypair (Some dAppKeypair), SetSharedSecret (Some sharedSecretDapp)])
                 | Inr sess \<Rightarrow>
                    (case field_of connectData ''public_key'' of
                       Inl e \<Rightarrow>
                         (Inl e, [SetKeypair (Some dAppKeypair),
                                  SetSharedSecret (Some sharedSecretDapp), SetSession sess])
                     | Inr key \<Rightarrow>
                        (case lib_call (new_PublicKey L key) of
                           Inl e \<Rightarrow>
                             (Inl e, [SetKeypair (Some dAppKeypair),
                                      SetSharedSecret (Some sharedSecretDapp), SetSession sess])
                         | Inr pk \<Rightarrow>
                             (Inr (), [SetKeypair (Some dAppKeypair),
                                       SetSharedSecret (Some sharedSecretDapp), SetSession sess,
                                       SetPublicKey (Some pk)])))))))"

definition connect :: "'tx lib \<Rightarrow> config \<Rightarrow> BoxKeyPair \<Rightarrow> world \<Rightarrow> unit waiter \<times> world" where
  "connect L cfg dAppKeypair w =
    (let requestParams =
           [(''dapp_encryption_public_key'', bs58_encode L (kp_publicKey dAppKeypair)),
            (''cluster'', cluster cfg),
            (''app_url'', appUrl cfg),
            (''redirect_link'', protocol cfg @ redirect_route OnConnect)];
         (resPromise, w1) =
           waitForResponse (redirect_route OnConnect) (connect_onResponse L dAppKeypair) w;
         target = buildUrl L (request_route Connect) requestParams
     in (resPromise, w1\<lparr>Linking := openURL target (Linking w1)\<rparr>))"

text \<open>
  \<^verbatim>\<open>signTransaction\<close> and \<^verbatim>\<open>signMessage\<close>. They read the state; \<open>nonce\<close> is what
  \<^verbatim>\<open>encryptPayload\<close> draws. Their guard is
  \<^verbatim>\<open>!sharedSecret || !keypair || !sharedSecret\<close>: it passes when both are objects, which
  the \<open>case\<close> binds; \<^verbatim>\<open>session\<close> is not tested. \<open>Inl e\<close> is a throw before anything was returned
  (\<^verbatim>\<open>signMessage\<close> is \<^verbatim>\<open>async\<close>: its caller sees a promise rejected with \<open>e\<close>). Their
  handlers use the shared secret of the call, and call no setter.
\<close>

definition signTransaction_onResponse :: "'tx lib \<Rightarrow> bytes \<Rightarrow> 'tx response_handler" where
  "signTransaction_onResponse L secret responseParams =
    (case decryptPayload L
            (nullable (params_get responseParams (response_param DATA)))
            (nullable (params_get responseParams (response_param NONCE)))
            secret of
       Inl e \<Rightarrow> (Inl e, [])
     | Inr signTransactionData \<Rightarrow>
        (case field_of signTransactionData ''transaction'' of
           Inl e \<Rightarrow> (Inl e, [])
         | Inr t \<Rightarrow>
            (case lib_call (bs58_decode L t) of
               Inl e \<Rightarrow> (Inl e, [])
             | Inr raw \<Rightarrow> (lib_call (Transaction_from L raw), []))))"

definition signTransaction ::
  "'tx lib \<Rightarrow> config \<Rightarrow> bytes \<Rightarrow> 'tx \<Rightarrow> world \<Rightarrow> (error + 'tx waiter) \<times> world" where
  "signTransaction L cfg nonce transaction w =
    (case lib_call (serialize L transaction) of
       Inl e \<Rightarrow> (Inl e, w)
     | Inr raw \<Rightarrow>
        (let serializedTransaction = bs58_encode L raw in
         case (sharedSecret (hooks w), keypair (hooks w)) of
           (None, _) \<Rightarrow> (Inl NotConnected, w)
         | (Some secret, None) \<Rightarrow> (Inl NotConnected, w)
         | (Some secret, Some kp) \<Rightarrow>
            (let payload = JObj [(''session'', session (hooks w)),
                                 (''transaction'', JStr serializedTransaction)]
             in case encryptPayload L nonce payload secret of
                  Inl e \<Rightarrow> (Inl e, w)
                | Inr (n, encryptedPayload) \<Rightarrow>
                   (let requestParams =
                          [(''dapp_encryption_public_key'', bs58_encode L (kp_publicKey kp)),
                           (''nonce'', bs58_encode L n),
                           (''redirect_link'', protocol cfg @ redirect_route OnSignTransaction),
                           (''payload'', bs58_encode L encryptedPayload)];
                        target = buildUrl L (request_route SignTransaction) requestParams;
                        (p, w1) = waitForResponse (redirect_route OnSignTransaction)
                                    (signTransaction_onResponse L secret) w
                    in (Inr p, w1\<lparr>Linking := openURL target (Linking w1)\<rparr>)))))"

definition signMessage_responseHandler :: "'tx lib \<Rightarrow> bytes \<Rightarrow> bytes response_handler" where
  "signMessage_responseHandler L secret responseParams =
    (case decryptPayload L
            (nullable (params_get responseParams (response_param DATA)))
            (nullable (params_get responseParams (response_param NONCE)))
            secret of
       Inl e \<Rightarrow> (Inl e, [])
     | Inr signMessageData \<Rightarrow>
        (case field_of signMessageData ''signature'' of
           Inl e \<Rightarrow> (Inl e, [])
         | Inr signature \<Rightarrow> (lib_call (bs58_decode L signature), [])))"

definition signMessage ::
  "'tx lib \<Rightarrow> config \<Rightarrow> bytes \<Rightarrow> bytes \<Rightarrow> world \<Rightarrow> (error + bytes waiter) \<times> world" where
  "signMessage L cfg nonce msg w =
    (case (sharedSecret (hooks w), keypair (hooks w)) of
       (None, _) \<Rightarrow> (Inl NotConnected, w)
     | (Some secret, None) \<Rightarrow> (Inl NotConnected, w)
     | (Some secret, Some kp) \<Rightarrow>
        (let payload = JObj [(''session'', session (hooks w)),
                             (''message'', JStr (bs58_encode L msg))]
         in case encryptPayload L nonce payload secret of
              Inl e \<Rightarrow> (Inl e, w)
            | Inr (n, encryptedPayload) \<Rightarrow>
               (let requestParams =
                      [(''dapp_encryption_public_key'', bs58_encode L (kp_publicKey kp)),
                       (''nonce'', bs58_encode L n),
                       (''redirect_link'', protocol cfg @ redirect_route OnSignMessage),
                       (''payload'', bs58_encode L encryptedPayload)];
                    (p, w1) = waitForResponse (redirect_route OnSignMessage)
                                (signMessage_responseHandler L secret) w;
                    target = buildUrl L (request_route SignMessage) requestParams
                in (Inr p, w1\<lparr>Linking := openURL target (Linking w1)\<rparr>))))"

definition disconnect :: "world \<Rightarrow> world" where
  "disconnect w =
     w\<lparr>hooks := apply_calls
          [SetPublicKey None, SetSession JNull, SetKeypair None, SetSharedSecret None] (hooks w)\<rparr>"

text \<open>An operation followed by a stream of inbound events.\<close>

definition then_events ::
  "'tx lib \<Rightarrow> config \<Rightarrow> string list \<Rightarrow> (error + 'a waiter) \<times> world \<Rightarrow> (error + 'a waiter) \<times> world" where
  "then_events L cfg us rw =
    (case rw of
       (Inl e, w) \<Rightarrow> (Inl e, w)
     | (Inr p, w) \<Rightarrow> (let (p', w') = emit_all L cfg us (p, w) in (Inr p', w')))"

section \<open>Two notions for the proofs\<close>

text \<open>
  The subscription of a waiter is in step with its promise: registered and never removed
  while the promise is pending, removed once from the moment it has settled.
\<close>

definition settled_once :: "'a waiter \<Rightarrow> world \<Rightarrow> bool" where
  "settled_once p w =
    (event p < length (subscriptions (Linking w)) \<and>
     subscriptions (Linking w) ! event p = (if pending (promise p) then 0 else 1) \<and>
     finally_done p = (\<not> pending (promise p)))"

text \<open>What one event does to the promise of a waiter on \<open>route\<close> with handler \<open>h\<close>.\<close>

definition promise_step ::
  "'tx lib \<Rightarrow> config \<Rightarrow> string \<Rightarrow> 'a response_handler \<Rightarrow> string \<Rightarrow> 'a promise_state \<Rightarrow> 'a promise_state" where
  "promise_step L cfg route h u s =
     (if pending s then settle (fst (listener L cfg route h u)) s else s)"

section \<open>What the provider publishes\<close>

text \<open>
  The value given to \<^verbatim>\<open>PhantomContext.Provider\<close>, an object of the interface
  \<^verbatim>\<open>CommonWallet\<close>, without its four function members. Its \<^verbatim>\<open>publicKey\<close> is the state
  variable; every other member is a constant of the component.
\<close>

definition PhantomIconUrl :: string where
  "PhantomIconUrl = ''https://www.gitbook.com/cdn-cgi/image/width=40,height=40,fit=contain,dpr=1,format=auto/https%3A%2F%2F3632261023-files.gitbook.io%2F~%2Ffiles%2Fv0%2Fb%2Fgitbook-legacy-files%2Fo%2Fspaces%252F-MVOiF6Zqit57q_hxJYp%252Favatar-1615495356537.png%3Fgeneration%3D1615495356841399%26alt%3Dmedia''"

record CommonWallet =
  name :: string
  url :: string
  icon :: string
  readyState :: string
  wallet_publicKey :: "PublicKey option"
  connecting :: bool
  connected :: bool
  wallets :: "string list"
  autoConnect :: bool
  disconnecting :: bool
  wallet :: "string \<times> string \<times> string"

definition context_value :: "world \<Rightarrow> CommonWallet" where
  "context_value w =
    \<lparr>name = PhantomWalletName,
     url = PhantomWalletUrl,
     icon = PhantomIconUrl,
     readyState = ''Installed'',
     wallet_publicKey = publicKey (hooks w),
     connecting = False,
     connected = True,
     wallets = [],
     autoConnect = True,
     disconnecting = False,
     wallet = (PhantomWalletName, PhantomWalletUrl, PhantomIconUrl)\<rparr>"

section \<open>A small instance of the libraries\<close>

text \<open>
  A stand-in for the libraries, small enough to compute with, on which the theorems below
  are run at concrete inputs. Its URLs, its search parameters and its public keys behave as
  the real ones do on the inputs used; its base 58 writes each byte as the character of
  that code; its key agreement appends the two keys; its box is a transparent envelope
  (the key, the nonce, then the message) that opens under the same key and nonce only; its
  JSON is a table of the documents used.
\<close>

definition ascii :: "string \<Rightarrow> bytes" where
  "ascii s = map (\<lambda>c. of_nat (of_char c)) s"

definition text_of :: "bytes \<Rightarrow> string" where
  "text_of b = map (\<lambda>x. char_of (unat x)) b"

fun fields :: "char \<Rightarrow> string \<Rightarrow> string list" where
  "fields c [] = [[]]"
| "fields c (x # xs) =
     (if x = c then [] # fields c xs
      else (case fields c xs of [] \<Rightarrow> [[x]] | f # fs \<Rightarrow> (x # f) # fs))"

fun is_substring :: "string \<Rightarrow> string \<Rightarrow> bool" where
  "is_substring p [] = (p = [])"
| "is_substring p (x # xs) = (take (length p) (x # xs) = p \<or> is_substring p xs)"

fun replace_first :: "string \<Rightarrow> string \<Rightarrow> string \<Rightarrow> string" where
  "replace_first [] p r = (if p = [] then r else [])"
| "replace_first (x # xs) p r =
     (if take (length p) (x # xs) = p then r @ drop (length p) (x # xs)
      else x # replace_first xs p r)"

definition stub_new_URL :: "string \<Rightarrow> string + URL" where
  "stub_new_URL s =
    (if take 8 s = ''https://'' then
       (let rest = dropWhile (\<lambda>c. c \<noteq> CHR ''/'') (drop 8 s);
            path = takeWhile (\<lambda>c. c \<noteq> CHR ''?'') rest;
            query = drop 1 (dropWhile (\<lambda>c. c \<noteq> CHR ''?'') rest)
        in Inr \<lparr>pathname = (if path = [] then ''/'' else path),
                searchParams =
                  map (\<lambda>f. (takeWhile (\<lambda>c. c \<noteq> CHR ''='') f,
                             drop 1 (dropWhile (\<lambda>c. c \<noteq> CHR ''='') f)))
                    (filter (\<lambda>f. f \<noteq> []) (fields (CHR ''&'') query))\<rparr>)
     else Inl ''TypeError: Invalid URL'')"

fun stub_params_toString :: "URLSearchParams \<Rightarrow> string" where
  "stub_params_toString [] = []"
| "stub_params_toString [(k, v)] = k @ ''='' @ v"
| "stub_params_toString ((k, v) # kvs) = k @ ''='' @ v @ ''&'' @ stub_params_toString kvs"

fun stub_bs58_decode :: "jsval \<Rightarrow> string + bytes" where
  "stub_bs58_decode (JStr s) = Inr (ascii s)"
| "stub_bs58_decode v = Inl ''Expected String''"

definition stub_box_open_after :: "bytes \<Rightarrow> bytes \<Rightarrow> bytes \<Rightarrow> string + bytes option" where
  "stub_box_open_after c n k =
     Inr (if take (length k + length n) c = k @ n then Some (drop (length k + length n) c)
          else None)"

definition stub_documents :: "(string \<times> jsval) list" where
  \<open>stub_documents =
    [(''null'', JNull),
     (''{"session":"s1","public_key":"11111111111111111111111111111111"}'',
        JObj [(''session'', JStr ''s1''),
              (''public_key'', JStr ''11111111111111111111111111111111'')]),
     (''{"session":"s1","public_key":"pk1"}'',
        JObj [(''session'', JStr ''s1''), (''public_key'', JStr ''pk1'')]),
     (''{"session":null,"message":"hello"}'',
        JObj [(''session'', JNull), (''message'', JStr ''hello'')])]\<close>

definition stub_JSON_parse :: "string \<Rightarrow> string + jsval" where
  "stub_JSON_parse t =
     (case map_of stub_documents t of
        None \<Rightarrow> Inl ''SyntaxError: Unexpected token''
      | Some v \<Rightarrow> Inr v)"

definition stub_JSON_stringify :: "jsval \<Rightarrow> string option" where
  "stub_JSON_stringify v = map_option fst (find (\<lambda>d. snd d = v) stub_documents)"

fun stub_buffer_from :: "string option \<Rightarrow> string + bytes" where
  "stub_buffer_from None = Inl ''TypeError: The first argument must be of type string''"
| "stub_buffer_from (Some s) = Inr (ascii s)"

fun stub_new_PublicKey :: "jsval \<Rightarrow> string + PublicKey" where
  "stub_new_PublicKey (JStr s) =
     (if length s = 32 then Inr (PublicKey (ascii s)) else Inl ''Invalid public key input'')"
| "stub_new_PublicKey v = Inl ''Invalid public key input''"

text \<open>
  A transaction is its recent blockhash, if it has one, and its wire bytes; one without a
  recent blockhash does not serialize.
\<close>

datatype stub_tx = StubTx "string option" bytes

fun stub_serialize :: "stub_tx \<Rightarrow> string + bytes" where
  "stub_serialize (StubTx None b) = Inl ''Transaction recentBlockhash required''"
| "stub_serialize (StubTx (Some h) b) = Inr b"

definition stub_lib :: "stub_tx lib" where
  "stub_lib =
    \<lparr>string_replace = replace_first,
     new_URL = stub_new_URL,
     regexp_test = is_substring,
     params_toString = stub_params_toString,
     bs58_encode = text_of,
     bs58_decode = stub_bs58_decode,
     box_before = (\<lambda>pk sk. Inr (pk @ sk)),
     box_after = (\<lambda>m n k. Inr (k @ n @ m)),
     box_open_after = stub_box_open_after,
     JSON_stringify = stub_JSON_stringify,
     JSON_parse = stub_JSON_parse,
     buffer_from = stub_buffer_from,
     buffer_toString = text_of,
     new_PublicKey = stub_new_PublicKey,
     serialize = stub_serialize,
     Transaction_from = (\<lambda>b. Inr (StubTx (Some ''h1'') b))\<rparr>"

definition stub_config :: config where
  "stub_config = \<lparr>cluster = ''devnet'', appUrl = ''https://example.app/'', protocol = ''example://''\<rparr>"

definition stub_keypair :: BoxKeyPair where
  "stub_keypair = \<lparr>kp_publicKey = ascii ''DP'', kp_secretKey = ascii ''SK''\<rparr>"

text \<open>Callback URLs, a payload and a state for the runs below.\<close>

definition callback_bad_key :: string where
  \<open>callback_bad_key =
    ''example://onConnect?phantom_encryption_public_key=PK&nonce=N1&data=PKSKN1{"session":"s1","public_key":"pk1"}''\<close>

definition callback_connected :: string where
  \<open>callback_connected =
    ''example://onConnect?phantom_encryption_public_key=PK&nonce=N1&data=PKSKN1{"session":"s1","public_key":"11111111111111111111111111111111"}''\<close>

definition callback_empty_errorCode :: string where
  \<open>callback_empty_errorCode =
    ''example://onConnect?errorCode=&phantom_encryption_public_key=PK&nonce=N1&data=PKSKN1{"session":"s1","public_key":"11111111111111111111111111111111"}''\<close>

definition callback_remote_error :: string where
  "callback_remote_error = ''example://onConnect?errorCode=4001&errorMessage=rejected''"

definition stub_payload :: jsval where
  "stub_payload = JObj [(''session'', JNull), (''message'', JStr ''hello'')]"

definition world_after_disconnect :: world where
  "world_after_disconnect =
     disconnect (snd (emit stub_lib stub_config callback_connected
       (connect stub_lib stub_config stub_keypair initial_world)))"

section \<open>Subscriptions and promises\<close>

lemma pending_settle: "\<not> pending s \<Longrightarrow> settle r s = s"
  by (cases s) simp_all

lemma waitForResponse_settled_once: "settled_once (fst (waitForResponse r h w)) (snd (waitForResponse r h w))"
  by (simp add: waitForResponse_def addEventListener_def settled_once_def)

lemma waitForResponse_fields:
  "redirectRoute (fst (waitForResponse r h w)) = r"
  "handler (fst (waitForResponse r h w)) = h"
  "promise (fst (waitForResponse r h w)) = Pending"
  "event (fst (waitForResponse r h w)) = length (subscriptions (Linking w))"
  "hooks (snd (waitForResponse r h w)) = hooks w"
  "opened (Linking (snd (waitForResponse r h w))) = opened (Linking w)"
  "subscriptions (Linking (snd (waitForResponse r h w))) = subscriptions (Linking w) @ [0]"
  by (simp_all add: waitForResponse_def addEventListener_def)

lemma emit_step:
  assumes "settled_once p w"
  shows "promise (fst (emit L cfg u (p, w))) = promise_step L cfg (redirectRoute p) (handler p) u (promise p)"
    and "settled_once (fst (emit L cfg u (p, w))) (snd (emit L cfg u (p, w)))"
    and "redirectRoute (fst (emit L cfg u (p, w))) = redirectRoute p"
    and "handler (fst (emit L cfg u (p, w))) = handler p"
    and "event (fst (emit L cfg u (p, w))) = event p"
    and "opened (Linking (snd (emit L cfg u (p, w)))) = opened (Linking w)"
    and "length (subscriptions (Linking (snd (emit L cfg u (p, w))))) = length (subscriptions (Linking w))"
  using assms
  by (auto simp: emit_def call_listener_def run_finally_def registered_def settled_once_def
      promise_step_def event_remove_def pending_settle split: prod.splits)


lemma emit_all_run:
  assumes "settled_once p w"
  shows "promise (fst (emit_all L cfg us (p, w))) =
           fold (promise_step L cfg (redirectRoute p) (handler p)) us (promise p)
         \<and> settled_once (fst (emit_all L cfg us (p, w))) (snd (emit_all L cfg us (p, w)))
         \<and> redirectRoute (fst (emit_all L cfg us (p, w))) = redirectRoute p
         \<and> handler (fst (emit_all L cfg us (p, w))) = handler p
         \<and> event (fst (emit_all L cfg us (p, w))) = event p
         \<and> opened (Linking (snd (emit_all L cfg us (p, w)))) = opened (Linking w)"
  using assms
proof (induction us arbitrary: p w)
  case Nil
  then show ?case by (simp add: emit_all_def)
next
  case (Cons u us)
  obtain p1 w1 where e: "emit L cfg u (p, w) = (p1, w1)"
    by (cases "emit L cfg u (p, w)")
  from emit_step[OF Cons.prems, of L cfg u] e
  have s: "settled_once p1 w1"
    and f: "promise p1 = promise_step L cfg (redirectRoute p) (handler p) u (promise p)"
      "redirectRoute p1 = redirectRoute p" "handler p1 = handler p" "event p1 = event p"
      "opened (Linking w1) = opened (Linking w)"
    by simp_all
  have "emit_all L cfg (u # us) (p, w) = emit_all L cfg us (p1, w1)"
    by (simp add: emit_all_def e)
  with Cons.IH[OF s] f show ?case by simp
qed

text \<open>
  Claim C6. Whatever the stream of inbound events, the route, the handler and the
  outcome, the subscription made by a call of \<^verbatim>\<open>waitForResponse\<close> is registered, with no
  call of its \<^verbatim>\<open>remove()\<close>, exactly as long as the promise is pending, and from the moment the
  promise has settled (fulfilled, rejected by the error branch or rejected by the handler)
  \<^verbatim>\<open>remove()\<close> has been called on it exactly once and it is no longer registered.
\<close>

theorem waiter_unsubscribes_once:
  "subscriptions (Linking (snd (emit_all L cfg us (waitForResponse route h w))))
      ! event (fst (emit_all L cfg us (waitForResponse route h w)))
    = (if pending (promise (fst (emit_all L cfg us (waitForResponse route h w)))) then 0 else 1)
   \<and> registered (Linking (snd (emit_all L cfg us (waitForResponse route h w))))
        (event (fst (emit_all L cfg us (waitForResponse route h w))))
      = pending (promise (fst (emit_all L cfg us (waitForResponse route h w))))
   \<and> event (fst (emit_all L cfg us (waitForResponse route h w)))
      = length (subscriptions (Linking w))"
proof -
  obtain p w0 where pw: "waitForResponse route h w = (p, w0)"
    by (cases "waitForResponse route h w")
  have s: "settled_once p w0"
    using waitForResponse_settled_once[of route h w] by (simp add: pw)
  have ev: "event p = length (subscriptions (Linking w))"
    using waitForResponse_fields(4)[of route h w] by (simp add: pw)
  from emit_all_run[OF s, of L cfg us] ev show ?thesis
    by (auto simp: pw settled_once_def registered_def)
qed

section \<open>The first matching event\<close>

lemma call_listener_not_matching:
  assumes "\<not> matches L cfg (redirectRoute p) u"
  shows "call_listener L cfg u (p, w) = (p, w)"
  using assms
  by (auto simp: call_listener_def listener_def matches_def apply_calls_def Let_def
      split: sum.splits)

lemma fold_call_listener_not_matching:
  assumes "\<forall>x\<in>set us. \<not> matches L cfg (redirectRoute p) x"
  shows "fold (call_listener L cfg) us (p, w) = (p, w)"
  using assms by (induction us) (simp_all add: call_listener_not_matching)

lemma call_listener_keeps:
  "Linking (snd (call_listener L cfg u (p, w))) = Linking w
   \<and> event (fst (call_listener L cfg u (p, w))) = event p
   \<and> finally_done (fst (call_listener L cfg u (p, w))) = finally_done p
   \<and> (\<not> pending (promise p) \<longrightarrow> promise (fst (call_listener L cfg u (p, w))) = promise p)"
  by (simp add: call_listener_def case_prod_unfold Let_def pending_settle)

lemma fold_call_listener_keeps:
  "Linking (snd (fold (call_listener L cfg) us (p, w))) = Linking w
   \<and> event (fst (fold (call_listener L cfg) us (p, w))) = event p
   \<and> finally_done (fst (fold (call_listener L cfg) us (p, w))) = finally_done p
   \<and> (\<not> pending (promise p) \<longrightarrow> promise (fst (fold (call_listener L cfg) us (p, w))) = promise p)"
proof (induction us arbitrary: p w)
  case Nil
  show ?case by simp
next
  case (Cons u us)
  obtain p1 w1 where c: "call_listener L cfg u (p, w) = (p1, w1)"
    by (cases "call_listener L cfg u (p, w)")
  from call_listener_keeps[of L cfg u p w] c
  have k: "Linking w1 = Linking w" "event p1 = event p" "finally_done p1 = finally_done p"
    "\<not> pending (promise p) \<Longrightarrow> promise p1 = promise p"
    by simp_all
  from Cons.IH[of p1 w1] k show ?case by (auto simp: c)
qed

lemma emit_task_settled:
  assumes "settled_once p w" and "\<not> pending (promise p)"
  shows "emit_task L cfg us (p, w) = (p, w)"
proof -
  have "call_listener L cfg u (p, w) = (p, w)" for u
    using assms by (simp add: call_listener_def settled_once_def registered_def)
  then have "fold (call_listener L cfg) us (p, w) = (p, w)"
    by (induction us) simp_all
  then show ?thesis
    using assms by (simp add: emit_task_def run_finally_def settled_once_def)
qed

lemma emit_tasks_settled:
  assumes "settled_once p w" and "\<not> pending (promise p)"
  shows "emit_tasks L cfg ts (p, w) = (p, w)"
  using assms by (induction ts) (simp_all add: emit_tasks_def emit_task_settled)

lemma emit_task_not_matching:
  assumes "settled_once p w" and "\<forall>x\<in>set us. \<not> matches L cfg (redirectRoute p) x"
  shows "emit_task L cfg us (p, w) = (p, w)"
  using assms
  by (auto simp: emit_task_def fold_call_listener_not_matching run_finally_def settled_once_def)

lemma emit_tasks_not_matching:
  assumes "settled_once p w" and "\<forall>x\<in>set (concat ts). \<not> matches L cfg (redirectRoute p) x"
  shows "emit_tasks L cfg ts (p, w) = (p, w)"
  using assms by (induction ts) (simp_all add: emit_tasks_def emit_task_not_matching)

lemma call_listener_matching:
  assumes "registered (Linking w) (event p)" and "promise p = Pending"
    and "new_URL L (string_replace L u (protocol cfg) (appUrl cfg)) = Inr parsedUrl"
    and "regexp_test L (redirectRoute p) (pathname parsedUrl)"
  shows "promise (fst (call_listener L cfg u (p, w))) =
           (if truthy (params_get (searchParams parsedUrl) ''errorCode'') then Rejected RemoteError
            else (case fst (handler p (searchParams parsedUrl)) of
                    Inl e \<Rightarrow> Rejected e
                  | Inr v \<Rightarrow> Fulfilled v))"
  using assms
  by (auto simp: call_listener_def listener_def Let_def split: sum.splits prod.splits)

lemma emit_task_first_match:
  assumes s: "settled_once p w" and pe: "promise p = Pending"
    and nm: "\<forall>x\<in>set ta. \<not> matches L cfg (redirectRoute p) x"
    and url: "new_URL L (string_replace L u (protocol cfg) (appUrl cfg)) = Inr parsedUrl"
    and test: "regexp_test L (redirectRoute p) (pathname parsedUrl)"
  shows "awaitable (fst (emit_task L cfg (ta @ u # tb) (p, w))) =
           (if truthy (params_get (searchParams parsedUrl) ''errorCode'') then Rejected RemoteError
            else (case fst (handler p (searchParams parsedUrl)) of
                    Inl e \<Rightarrow> Rejected e
                  | Inr v \<Rightarrow> Fulfilled v))
       \<and> settled_once (fst (emit_task L cfg (ta @ u # tb) (p, w)))
            (snd (emit_task L cfg (ta @ u # tb) (p, w)))
       \<and> \<not> pending (promise (fst (emit_task L cfg (ta @ u # tb) (p, w))))"
proof -
  let ?val = "if truthy (params_get (searchParams parsedUrl) ''errorCode'') then Rejected RemoteError
            else (case fst (handler p (searchParams parsedUrl)) of
                    Inl e \<Rightarrow> Rejected e
                  | Inr v \<Rightarrow> Fulfilled v)"
  have reg: "registered (Linking w) (event p)" and fd: "\<not> finally_done p"
    and len: "event p < length (subscriptions (Linking w))"
    and zero: "subscriptions (Linking w) ! event p = 0"
    using s pe by (simp_all add: settled_once_def registered_def)
  obtain p1 w1 where c: "call_listener L cfg u (p, w) = (p1, w1)"
    by (cases "call_listener L cfg u (p, w)")
  have v1: "promise p1 = ?val"
    using call_listener_matching[OF reg pe url test] by (simp add: c)
  then have np1: "\<not> pending (promise p1)" by (auto split: sum.splits)
  have k1: "Linking w1 = Linking w" "event p1 = event p" "finally_done p1 = finally_done p"
    using call_listener_keeps[of L cfg u p w] by (simp_all add: c)
  obtain p2 w2 where f: "fold (call_listener L cfg) tb (p1, w1) = (p2, w2)"
    by (cases "fold (call_listener L cfg) tb (p1, w1)")
  have k2: "Linking w2 = Linking w1" "event p2 = event p1" "finally_done p2 = finally_done p1"
    "promise p2 = promise p1"
    using fold_call_listener_keeps[of L cfg tb p1 w1] np1 by (simp_all add: f)
  have "fold (call_listener L cfg) (ta @ u # tb) (p, w) = (p2, w2)"
    by (simp add: fold_call_listener_not_matching[OF nm] c f)
  then have e: "emit_task L cfg (ta @ u # tb) (p, w) =
      (p2\<lparr>finally_done := True\<rparr>, w2\<lparr>Linking := event_remove (event p2) (Linking w2)\<rparr>)"
    using np1 fd by (simp add: emit_task_def run_finally_def k1 k2)
  show ?thesis
    using np1 v1 len zero
    by (simp add: e awaitable_def settled_once_def event_remove_def k1 k2)
qed

lemma emit_task_single: "emit_task L cfg [u] pw = emit L cfg u pw"
  by (simp add: emit_task_def emit_def)

text \<open>
  Claim C5, as amended. For every call of \<^verbatim>\<open>waitForResponse\<close> and every stream of inbound
  events, however the transport groups them into tasks, the first event that passes the
  route test decides the outcome: when the value of its \<^verbatim>\<open>errorCode\<close> parameter is a
  non-empty string the awaitable is rejected with the remote error; otherwise (no
  \<^verbatim>\<open>errorCode\<close>, or one with an empty value) it is fulfilled with what the handler
  returned on the event's parameters, or rejected with what the handler threw. The events
  delivered after the awaitable has settled, those of the tasks after the task of the first
  matching event, are not observed by the waiter: with or without them the waiter, the
  state and the transport end the same.
\<close>

theorem first_match_settles:
  assumes "\<forall>x\<in>set (concat ts @ ta). \<not> matches L cfg route x"
    and "new_URL L (string_replace L u (protocol cfg) (appUrl cfg)) = Inr parsedUrl"
    and "regexp_test L route (pathname parsedUrl)"
  shows "awaitable (fst (emit_tasks L cfg (ts @ (ta @ u # tb) # ts') (waitForResponse route h w))) =
           (if truthy (params_get (searchParams parsedUrl) ''errorCode'') then Rejected RemoteError
            else (case fst (h (searchParams parsedUrl)) of
                    Inl e \<Rightarrow> Rejected e
                  | Inr v \<Rightarrow> Fulfilled v))
         \<and> emit_tasks L cfg (ts @ (ta @ u # tb) # ts') (waitForResponse route h w) =
             emit_tasks L cfg (ts @ [ta @ u # tb]) (waitForResponse route h w)"
proof -
  obtain p w0 where pw: "waitForResponse route h w = (p, w0)"
    by (cases "waitForResponse route h w")
  have s: "settled_once p w0" and r: "redirectRoute p = route" and hd: "handler p = h"
    and pe: "promise p = Pending"
    using waitForResponse_settled_once[of route h w] waitForResponse_fields(1-3)[of route h w]
    by (simp_all add: pw)
  have before: "emit_tasks L cfg ts (p, w0) = (p, w0)"
    using s assms(1) by (intro emit_tasks_not_matching) (simp_all add: r)
  obtain p1 w1 where e: "emit_task L cfg (ta @ u # tb) (p, w0) = (p1, w1)"
    by (cases "emit_task L cfg (ta @ u # tb) (p, w0)")
  have nm: "\<forall>x\<in>set ta. \<not> matches L cfg (redirectRoute p) x"
    using assms(1) by (simp add: r)
  from emit_task_first_match[OF s pe nm, of u parsedUrl tb] assms(2,3) e
  have val: "awaitable p1 =
           (if truthy (params_get (searchParams parsedUrl) ''errorCode'') then Rejected RemoteError
            else (case fst (h (searchParams parsedUrl)) of
                    Inl e \<Rightarrow> Rejected e
                  | Inr v \<Rightarrow> Fulfilled v))"
    and s1: "settled_once p1 w1" and np: "\<not> pending (promise p1)"
    by (simp_all add: r hd)
  have upto: "emit_tasks L cfg (ts @ [ta @ u # tb]) (p, w0) = (p1, w1)"
    using before by (simp add: emit_tasks_def e)
  have "emit_tasks L cfg (ts @ (ta @ u # tb) # ts') (p, w0) = emit_tasks L cfg ts' (p1, w1)"
    using before by (simp add: emit_tasks_def e)
  also have "\<dots> = (p1, w1)"
    using s1 np by (rule emit_tasks_settled)
  finally have all: "emit_tasks L cfg (ts @ (ta @ u # tb) # ts') (p, w0) = (p1, w1)" .
  show ?thesis using val by (simp add: pw all upto)
qed

section \<open>Two waiters\<close>

lemma promise_step_not_matching:
  "\<not> matches L cfg route u \<Longrightarrow> promise_step L cfg route h u s = s"
  by (cases s) (auto simp: promise_step_def listener_def matches_def Let_def split: sum.splits)

lemma fold_promise_step_filter:
  "fold (promise_step L cfg route h) (filter (matches L cfg route) us) s =
   fold (promise_step L cfg route h) us s"
  by (induction us arbitrary: s) (simp_all add: promise_step_not_matching)

lemma promise_step_settled: "\<not> pending s \<Longrightarrow> promise_step L cfg route h u s = s"
  by (simp add: promise_step_def)

lemma call_listener_settled_once:
  assumes "settled_once p w"
  shows "fst (call_listener L cfg u (p, w)) =
           p\<lparr>promise := promise_step L cfg (redirectRoute p) (handler p) u (promise p)\<rparr>
         \<and> Linking (snd (call_listener L cfg u (p, w))) = Linking w"
  using assms
  by (simp add: call_listener_def settled_once_def registered_def promise_step_def
      case_prod_unfold Let_def)

lemma settled_once_Linking: "Linking w' = Linking w \<Longrightarrow> settled_once p w' = settled_once p w"
  by (simp add: settled_once_def)

lemma emit2_step:
  assumes sa: "settled_once a w" and sb: "settled_once b w" and ne: "event a \<noteq> event b"
  shows "promise (fst (emit2 L cfg u (a, b, w))) =
           promise_step L cfg (redirectRoute a) (handler a) u (promise a)
       \<and> promise (fst (snd (emit2 L cfg u (a, b, w)))) =
           promise_step L cfg (redirectRoute b) (handler b) u (promise b)
       \<and> settled_once (fst (emit2 L cfg u (a, b, w))) (snd (snd (emit2 L cfg u (a, b, w))))
       \<and> settled_once (fst (snd (emit2 L cfg u (a, b, w)))) (snd (snd (emit2 L cfg u (a, b, w))))
       \<and> redirectRoute (fst (emit2 L cfg u (a, b, w))) = redirectRoute a
       \<and> handler (fst (emit2 L cfg u (a, b, w))) = handler a
       \<and> event (fst (emit2 L cfg u (a, b, w))) = event a
       \<and> redirectRoute (fst (snd (emit2 L cfg u (a, b, w)))) = redirectRoute b
       \<and> handler (fst (snd (emit2 L cfg u (a, b, w)))) = handler b
       \<and> event (fst (snd (emit2 L cfg u (a, b, w)))) = event b"
proof -
  define ta where "ta = promise_step L cfg (redirectRoute a) (handler a) u (promise a)"
  define tb where "tb = promise_step L cfg (redirectRoute b) (handler b) u (promise b)"
  obtain a1 w1 where c1: "call_listener L cfg u (a, w) = (a1, w1)"
    by (cases "call_listener L cfg u (a, w)")
  obtain b1 w2 where c2: "call_listener L cfg u (b, w1) = (b1, w2)"
    by (cases "call_listener L cfg u (b, w1)")
  have a1: "a1 = a\<lparr>promise := ta\<rparr>" and l1: "Linking w1 = Linking w"
    using call_listener_settled_once[OF sa, of L cfg u] by (simp_all add: c1 ta_def)
  have sb1: "settled_once b w1"
    using sb by (simp add: settled_once_Linking[OF l1])
  have b1: "b1 = b\<lparr>promise := tb\<rparr>" and l2: "Linking w2 = Linking w"
    using call_listener_settled_once[OF sb1, of L cfg u] by (simp_all add: c2 tb_def l1)
  have ka: "\<not> pending (promise a) \<Longrightarrow> ta = promise a"
    and kb: "\<not> pending (promise b) \<Longrightarrow> tb = promise b"
    by (simp_all add: ta_def tb_def promise_step_settled)
  have e: "emit2 L cfg u (a, b, w) =
      (let (a2, w3) = run_finally (a\<lparr>promise := ta\<rparr>, w2);
           (b2, w4) = run_finally (b\<lparr>promise := tb\<rparr>, w3)
       in (a2, b2, w4))"
    by (simp add: emit2_def c1 c2 a1 b1)
  have fa: "finally_done a = (\<not> pending (promise a))"
    and fb: "finally_done b = (\<not> pending (promise b))"
    and la: "event a < length (subscriptions (Linking w))"
    and lb: "event b < length (subscriptions (Linking w))"
    and na: "subscriptions (Linking w) ! event a = (if pending (promise a) then 0 else 1)"
    and nb: "subscriptions (Linking w) ! event b = (if pending (promise b) then 0 else 1)"
    using sa sb by (simp_all add: settled_once_def)
  have ne': "event b \<noteq> event a" using ne by simp
  show ?thesis
    unfolding e ta_def[symmetric] tb_def[symmetric]
    by (cases "pending (promise a)"; cases "pending (promise b)"; cases "pending ta"; cases "pending tb")
       (simp_all add: run_finally_def settled_once_def event_remove_def l2 fa fb la lb na nb ka kb ne ne'
          nth_list_update)
qed


lemma emit2_all_run:
  assumes "settled_once a w" and "settled_once b w" and "event a \<noteq> event b"
  shows "promise (fst (emit2_all L cfg us (a, b, w))) =
           fold (promise_step L cfg (redirectRoute a) (handler a)) us (promise a)
       \<and> promise (fst (snd (emit2_all L cfg us (a, b, w)))) =
           fold (promise_step L cfg (redirectRoute b) (handler b)) us (promise b)"
  using assms
proof (induction us arbitrary: a b w)
  case Nil
  then show ?case by (simp add: emit2_all_def)
next
  case (Cons u us)
  obtain a1 b1 w1 where e: "emit2 L cfg u (a, b, w) = (a1, b1, w1)"
    by (cases "emit2 L cfg u (a, b, w)")
  from emit2_step[OF Cons.prems, of L cfg u] e
  have f: "promise a1 = promise_step L cfg (redirectRoute a) (handler a) u (promise a)"
      "promise b1 = promise_step L cfg (redirectRoute b) (handler b) u (promise b)"
      "redirectRoute a1 = redirectRoute a" "handler a1 = handler a"
      "redirectRoute b1 = redirectRoute b" "handler b1 = handler b"
    and s: "settled_once a1 w1" "settled_once b1 w1" "event a1 \<noteq> event b1"
    using Cons.prems(3) by simp_all
  have "emit2_all L cfg (u # us) (a, b, w) = emit2_all L cfg us (a1, b1, w1)"
    by (simp add: emit2_all_def e)
  with Cons.IH[OF s] f show ?case by simp
qed

lemma two_waiters_settled_once:
  "settled_once (fst (waitForResponse ra ha w))
     (snd (waitForResponse rb hb (snd (waitForResponse ra ha w))))
   \<and> settled_once (fst (waitForResponse rb hb (snd (waitForResponse ra ha w))))
     (snd (waitForResponse rb hb (snd (waitForResponse ra ha w))))
   \<and> event (fst (waitForResponse ra ha w)) \<noteq>
       event (fst (waitForResponse rb hb (snd (waitForResponse ra ha w))))"
  by (simp add: waitForResponse_def addEventListener_def settled_once_def nth_append)

text \<open>
  Claim C7. Two waiters subscribed to the same stream, on any routes and with any
  handlers: whatever the stream, each ends with the promise it would have ended with alone,
  had it been given only the events that pass its own route test. So an event that does
  not match a waiter's route does nothing to that waiter, and no event is taken away from
  the other waiter.
\<close>

theorem route_isolation:
  "promise (fst (emit2_all L cfg us
       (fst (waitForResponse ra ha w),
        waitForResponse rb hb (snd (waitForResponse ra ha w)))))
     = promise (fst (emit_all L cfg (filter (matches L cfg ra) us) (waitForResponse ra ha w)))
   \<and> promise (fst (snd (emit2_all L cfg us
       (fst (waitForResponse ra ha w),
        waitForResponse rb hb (snd (waitForResponse ra ha w))))))
     = promise (fst (emit_all L cfg (filter (matches L cfg rb) us) (waitForResponse rb hb w)))"
proof -
  obtain a w1 where wa: "waitForResponse ra ha w = (a, w1)"
    by (cases "waitForResponse ra ha w")
  obtain b w2 where wb: "waitForResponse rb hb w1 = (b, w2)"
    by (cases "waitForResponse rb hb w1")
  obtain b0 w0 where wb0: "waitForResponse rb hb w = (b0, w0)"
    by (cases "waitForResponse rb hb w")
  have two: "settled_once a w2" "settled_once b w2" "event a \<noteq> event b"
    using two_waiters_settled_once[of ra ha w rb hb] by (simp_all add: wa wb)
  have fa: "redirectRoute a = ra" "handler a = ha" "promise a = Pending"
    using waitForResponse_fields(1-3)[of ra ha w] by (simp_all add: wa)
  have fb: "redirectRoute b = rb" "handler b = hb" "promise b = Pending"
    using waitForResponse_fields(1-3)[of rb hb w1] by (simp_all add: wb)
  have fb0: "redirectRoute b0 = rb" "handler b0 = hb" "promise b0 = Pending"
    using waitForResponse_fields(1-3)[of rb hb w] by (simp_all add: wb0)
  have sa: "settled_once a w1"
    using waitForResponse_settled_once[of ra ha w] by (simp add: wa)
  have sb0: "settled_once b0 w0"
    using waitForResponse_settled_once[of rb hb w] by (simp add: wb0)
  from emit2_all_run[OF two, of L cfg us]
    emit_all_run[OF sa, of L cfg "filter (matches L cfg ra) us"]
    emit_all_run[OF sb0, of L cfg "filter (matches L cfg rb) us"]
  show ?thesis
    by (simp add: wa wb wb0 fa fb fb0 fold_promise_step_filter)
qed


section \<open>The session state\<close>

lemma emit_no_calls:
  assumes "\<And>ps. snd (handler p ps) = []"
  shows "hooks (snd (emit L cfg u (p, w))) = hooks w \<and> handler (fst (emit L cfg u (p, w))) = handler p"
proof -
  have "snd (listener L cfg (redirectRoute p) (handler p) u) = []"
  proof -
    have "\<And>ps r cs. handler p ps = (r, cs) \<Longrightarrow> cs = []"
      using assms by (metis snd_conv)
    then show ?thesis
      by (auto simp: listener_def Let_def split: sum.splits prod.splits)
  qed
  then show ?thesis
    by (auto simp: emit_def call_listener_def run_finally_def apply_calls_def split: prod.splits)
qed

lemma emit_all_no_calls:
  assumes "\<And>ps. snd (handler p ps) = []"
  shows "hooks (snd (emit_all L cfg us (p, w))) = hooks w"
  using assms
proof (induction us arbitrary: p w)
  case Nil
  then show ?case by (simp add: emit_all_def)
next
  case (Cons u us)
  obtain p1 w1 where e: "emit L cfg u (p, w) = (p1, w1)"
    by (cases "emit L cfg u (p, w)")
  from emit_no_calls[of p L cfg u w] Cons.prems e
  have h: "hooks w1 = hooks w" "handler p1 = handler p" by simp_all
  have "hooks (snd (emit_all L cfg us (p1, w1))) = hooks w1"
    by (rule Cons.IH) (simp add: h Cons.prems)
  then show ?case by (simp add: emit_all_def e h)
qed

lemma signTransaction_onResponse_no_calls: "snd (signTransaction_onResponse L k ps) = []"
  by (simp add: signTransaction_onResponse_def split: sum.splits)

lemma signMessage_responseHandler_no_calls: "snd (signMessage_responseHandler L k ps) = []"
  by (simp add: signMessage_responseHandler_def split: sum.splits)

lemma signTransaction_cases:
  "(\<exists>e. signTransaction L cfg n tx w = (Inl e, w)) \<or>
   (\<exists>k kp target. sharedSecret (hooks w) = Some k \<and> keypair (hooks w) = Some kp \<and>
      signTransaction L cfg n tx w =
        (Inr (fst (waitForResponse (redirect_route OnSignTransaction) (signTransaction_onResponse L k) w)),
         (snd (waitForResponse (redirect_route OnSignTransaction) (signTransaction_onResponse L k) w))
           \<lparr>Linking := openURL target
              (Linking (snd (waitForResponse (redirect_route OnSignTransaction) (signTransaction_onResponse L k) w)))\<rparr>))"
  by (auto simp: signTransaction_def Let_def split: sum.splits option.splits prod.splits)


lemma signMessage_cases:
  "(\<exists>e. signMessage L cfg n m w = (Inl e, w)) \<or>
   (\<exists>k kp target. sharedSecret (hooks w) = Some k \<and> keypair (hooks w) = Some kp \<and>
      signMessage L cfg n m w =
        (Inr (fst (waitForResponse (redirect_route OnSignMessage) (signMessage_responseHandler L k) w)),
         (snd (waitForResponse (redirect_route OnSignMessage) (signMessage_responseHandler L k) w))
           \<lparr>Linking := openURL target
              (Linking (snd (waitForResponse (redirect_route OnSignMessage) (signMessage_responseHandler L k) w)))\<rparr>))"
  by (auto simp: signMessage_def Let_def split: sum.splits option.splits prod.splits)

lemma then_events_no_calls:
  assumes "(\<exists>e. rw = (Inl e, w)) \<or>
     (\<exists>p w1. rw = (Inr p, w1) \<and> hooks w1 = hooks w \<and> (\<forall>ps. snd (handler p ps) = []))"
  shows "hooks (snd (then_events L cfg us rw)) = hooks w"
  using assms
proof
  assume "\<exists>e. rw = (Inl e, w)"
  then show ?thesis by (auto simp: then_events_def)
next
  assume "\<exists>p w1. rw = (Inr p, w1) \<and> hooks w1 = hooks w \<and> (\<forall>ps. snd (handler p ps) = [])"
  then obtain p w1 where rw: "rw = (Inr p, w1)" and h: "hooks w1 = hooks w"
    and n: "\<And>ps. snd (handler p ps) = []" by blast
  have "hooks (snd (emit_all L cfg us (p, w1))) = hooks w1"
    by (rule emit_all_no_calls) (rule n)
  then show ?thesis by (simp add: then_events_def rw h case_prod_unfold Let_def)
qed

text \<open>
  Claim C8. \<^verbatim>\<open>signTransaction\<close> and \<^verbatim>\<open>signMessage\<close>, followed by any stream of inbound
  events and whatever their outcome (a throw, a pending, fulfilled or rejected promise),
  leave the four state variables \<^verbatim>\<open>publicKey\<close>, \<^verbatim>\<open>keypair\<close>, \<^verbatim>\<open>sharedSecret\<close> and
  \<^verbatim>\<open>session\<close> as they were.
\<close>

theorem sign_leaves_session_state:
  "hooks (snd (then_events L cfg us (signTransaction L cfg n tx w))) = hooks w
   \<and> hooks (snd (then_events L cfg us (signMessage L cfg n m w))) = hooks w"
proof
  show "hooks (snd (then_events L cfg us (signTransaction L cfg n tx w))) = hooks w"
    using signTransaction_cases[of L cfg n tx w]
    by (intro then_events_no_calls)
       (auto simp: waitForResponse_fields signTransaction_onResponse_no_calls)
  show "hooks (snd (then_events L cfg us (signMessage L cfg n m w))) = hooks w"
    using signMessage_cases[of L cfg n m w]
    by (intro then_events_no_calls)
       (auto simp: waitForResponse_fields signMessage_responseHandler_no_calls)
qed

text \<open>
  Claim C3. From every state \<^verbatim>\<open>disconnect\<close> sets the four state variables to \<^verbatim>\<open>null\<close>,
  leaves the transport as it was (no URL opened, no subscription made or removed), and a
  second \<^verbatim>\<open>disconnect\<close> changes nothing more.
\<close>

theorem disconnect_clears:
  "hooks (disconnect w) = \<lparr>publicKey = None, keypair = None, sharedSecret = None, session = JNull\<rparr>
   \<and> Linking (disconnect w) = Linking w
   \<and> disconnect (disconnect w) = disconnect w"
  by (simp add: disconnect_def apply_calls_def)

text \<open>
  Claim C9. In every state the value the provider publishes has \<^verbatim>\<open>connected\<close> true and
  \<^verbatim>\<open>connecting\<close> false: both are constants of the component, whatever the four state
  variables and the transport hold.
\<close>

theorem status_fields_constant:
  "connected (context_value w) = True \<and> connecting (context_value w) = False"
  by (simp add: context_value_def)

section \<open>Computing with the small instance\<close>

lemma text_of_ascii: "text_of (ascii s) = s"
  unfolding ascii_def text_of_def by (induction s) (simp_all add: unat_of_nat)

lemma ascii_append: "ascii s @ ascii t = ascii (s @ t)"
  by (simp add: ascii_def)

lemma length_ascii: "length (ascii s) = length s"
  by (simp add: ascii_def)

lemma take_ascii: "take k (ascii s) = ascii (take k s)"
  by (simp add: ascii_def take_map)

lemma drop_ascii: "drop k (ascii s) = ascii (drop k s)"
  by (simp add: ascii_def drop_map)

lemma ascii_eq_iff: "(ascii s = ascii t) = (s = t)"
  by (metis text_of_ascii)

lemmas stub_simps =
  text_of_ascii ascii_append length_ascii take_ascii drop_ascii ascii_eq_iff
  stub_lib_def stub_config_def stub_keypair_def stub_new_URL_def stub_box_open_after_def
  stub_documents_def stub_JSON_parse_def stub_JSON_stringify_def

lemmas provider_simps =
  connect_def connect_onResponse_def decryptPayload_def encryptPayload_def
  waitForResponse_def addEventListener_def openURL_def event_remove_def registered_def
  emit_def emit_all_def call_listener_def run_finally_def listener_def
  params_get_def apply_calls_def buildUrl_def PhantomWalletUrl_def initial_world_def
  initial_state_def

lemma stub_box_round_trip:
  "box_after stub_lib m n k = Inr c \<Longrightarrow> box_open_after stub_lib c n k = Inr (Some m)"
  by (auto simp: stub_lib_def stub_box_open_after_def)

section \<open>The error indicator\<close>

text \<open>
  Claim C5, as it is written, fails: the listener tests the value of \<^verbatim>\<open>errorCode\<close> for
  truthiness, not the presence of the parameter. A callback on the route of \<^verbatim>\<open>connect\<close>
  that carries \<^verbatim>\<open>errorCode=\<close> with an empty value, next to a valid envelope, is not
  rejected with the remote error: the handler runs, the promise is fulfilled and the
  session is installed.
\<close>

theorem empty_errorCode_counterexample:
  \<open>new_URL stub_lib (string_replace stub_lib callback_empty_errorCode
       (protocol stub_config) (appUrl stub_config))
     = Inr \<lparr>pathname = ''/onConnect'',
            searchParams = [(''errorCode'', []), (''phantom_encryption_public_key'', ''PK''),
              (''nonce'', ''N1''),
              (''data'', ''PKSKN1{"session":"s1","public_key":"11111111111111111111111111111111"}'')]\<rparr>
   \<and> params_get [(''errorCode'', []), (''phantom_encryption_public_key'', ''PK''),
              (''nonce'', ''N1''),
              (''data'', ''PKSKN1{"session":"s1","public_key":"11111111111111111111111111111111"}'')]
         ''errorCode'' = Some []
   \<and> regexp_test stub_lib (redirect_route OnConnect) ''/onConnect''
   \<and> promise (fst (emit stub_lib stub_config callback_empty_errorCode
               (connect stub_lib stub_config stub_keypair initial_world)))
     \<noteq> Rejected RemoteError
   \<and> awaitable (fst (emit stub_lib stub_config callback_empty_errorCode
               (connect stub_lib stub_config stub_keypair initial_world)))
     = Fulfilled ()
   \<and> promise (fst (emit stub_lib stub_config callback_empty_errorCode
               (connect stub_lib stub_config stub_keypair initial_world)))
     = Fulfilled ()
   \<and> hooks (snd (emit stub_lib stub_config callback_empty_errorCode
               (connect stub_lib stub_config stub_keypair initial_world)))
     = \<lparr>publicKey = Some (PublicKey (ascii ''11111111111111111111111111111111'')),
        keypair = Some stub_keypair, sharedSecret = Some (ascii ''PKSK''), session = JStr ''s1''\<rparr>\<close>
  by (simp add: callback_empty_errorCode_def awaitable_def stub_simps provider_simps Let_def)

text \<open>
  The amended claim, on a stream of three tasks for a \<^verbatim>\<open>connect\<close> waiter: a callback of
  another route; a callback with \<^verbatim>\<open>errorCode=4001\<close> and, in the same task, a valid
  callback; a valid callback. The awaitable is rejected with the remote error, and the
  third task changes nothing.
\<close>

theorem first_match_settles_witness:
  "\<not> matches stub_lib stub_config (redirect_route OnConnect) ''example://onSignMessage?data=x''
   \<and> matches stub_lib stub_config (redirect_route OnConnect) callback_remote_error
   \<and> awaitable (fst (emit_tasks stub_lib stub_config
         [[''example://onSignMessage?data=x''], [callback_remote_error, callback_connected],
          [callback_connected]]
         (waitForResponse (redirect_route OnConnect) (connect_onResponse stub_lib stub_keypair)
            initial_world)))
       = Rejected RemoteError
   \<and> emit_tasks stub_lib stub_config
         [[''example://onSignMessage?data=x''], [callback_remote_error, callback_connected],
          [callback_connected]]
         (waitForResponse (redirect_route OnConnect) (connect_onResponse stub_lib stub_keypair)
            initial_world)
       = emit_tasks stub_lib stub_config
           [[''example://onSignMessage?data=x''], [callback_remote_error, callback_connected]]
           (waitForResponse (redirect_route OnConnect) (connect_onResponse stub_lib stub_keypair)
              initial_world)"
proof -
  let ?parsed = "\<lparr>pathname = ''/onConnect'',
      searchParams = [(''errorCode'', ''4001''), (''errorMessage'', ''rejected'')]\<rparr>"
  have pre0: "\<not> matches stub_lib stub_config (redirect_route OnConnect) ''example://onSignMessage?data=x''"
    by (simp add: matches_def stub_simps)
  then have pre: "\<forall>x\<in>set (concat [[''example://onSignMessage?data=x'']] @ []).
      \<not> matches stub_lib stub_config (redirect_route OnConnect) x"
    by simp
  have parsed: "new_URL stub_lib (string_replace stub_lib callback_remote_error
      (protocol stub_config) (appUrl stub_config)) = Inr ?parsed"
    by (simp add: callback_remote_error_def stub_simps)
  have test: "regexp_test stub_lib (redirect_route OnConnect) (pathname ?parsed)"
    by (simp add: stub_simps)
  have m: "matches stub_lib stub_config (redirect_route OnConnect) callback_remote_error"
    using test by (simp add: matches_def parsed)
  have code: "truthy (params_get (searchParams ?parsed) ''errorCode'')"
    by (simp add: params_get_def)
  note settled = first_match_settles[OF pre parsed test, of "[callback_connected]"
      "[[callback_connected]]" "connect_onResponse stub_lib stub_keypair" initial_world,
      unfolded if_P[OF code] append.simps]
  from settled pre0 m show ?thesis by blast
qed

text \<open>
  In that stream the valid callback of the second task reaches the listener before the
  microtask has removed the subscription: the promise stays rejected, and the handler runs
  and installs the session.
\<close>

lemma second_event_of_the_task:
  "hooks (snd (emit_tasks stub_lib stub_config
         [[''example://onSignMessage?data=x''], [callback_remote_error, callback_connected],
          [callback_connected]]
         (waitForResponse (redirect_route OnConnect) (connect_onResponse stub_lib stub_keypair)
            initial_world)))
     = \<lparr>publicKey = Some (PublicKey (ascii ''11111111111111111111111111111111'')),
        keypair = Some stub_keypair, sharedSecret = Some (ascii ''PKSK''), session = JStr ''s1''\<rparr>"
  by (simp add: emit_tasks_def emit_task_def callback_remote_error_def callback_connected_def
      stub_simps provider_simps Let_def)

section \<open>Encrypting and decrypting a payload\<close>

lemma decryptPayload_failed:
  assumes "bs58_decode L d = Inr c'" and "bs58_decode L e = Inr n'"
    and "box_open_after L c' n' k = Inr None"
  shows "decryptPayload L d e k = Inl DecryptionFailed"
  using assms by (simp add: decryptPayload_def)

lemma decryptPayload_authenticated:
  assumes "decryptPayload L d e k = Inr v"
  shows "\<exists>c' n' m. bs58_decode L d = Inr c' \<and> bs58_decode L e = Inr n'
           \<and> box_open_after L c' n' k = Inr (Some m)
           \<and> JSON_parse L (buffer_toString L m) = Inr v"
proof -
  from assms obtain c' where c: "bs58_decode L d = Inr c'"
    by (cases "bs58_decode L d") (simp_all add: decryptPayload_def)
  from assms c obtain n' where n: "bs58_decode L e = Inr n'"
    by (cases "bs58_decode L e") (simp_all add: decryptPayload_def)
  from assms c n obtain r where r: "box_open_after L c' n' k = Inr r"
    by (cases "box_open_after L c' n' k") (simp_all add: decryptPayload_def)
  from assms c n r obtain m where m: "r = Some m"
    by (cases r) (simp_all add: decryptPayload_def)
  from assms c n r m have "JSON_parse L (buffer_toString L m) = Inr v"
    by (cases "JSON_parse L (buffer_toString L m)") (simp_all add: decryptPayload_def)
  with c n r m show ?thesis by blast
qed

text \<open>
  Claim C4. A payload encrypted by \<^verbatim>\<open>encryptPayload\<close> under a shared secret, its
  ciphertext and nonce written in base 58, is what \<^verbatim>\<open>decryptPayload\<close> returns under the
  same secret. The hypotheses are the contracts of the libraries at the values involved:
  the payload is JSON-representable (\<^verbatim>\<open>JSON.parse\<close> inverts \<^verbatim>\<open>JSON.stringify\<close> on it),
  \<^verbatim>\<open>Buffer\<close> gives back the text it encoded, the box opens under the nonce and key it
  was made with, and bs58 decodes what it encoded. And, under no hypothesis on the
  libraries: whenever \<^verbatim>\<open>nacl.box.open.after\<close> returns \<^verbatim>\<open>null\<close>, \<^verbatim>\<open>decryptPayload\<close>
  fails with "Unable to decrypt data"; and whatever \<^verbatim>\<open>decryptPayload\<close> returns is the
  parse of a plaintext that \<^verbatim>\<open>nacl.box.open.after\<close> authenticated.
\<close>

theorem payload_round_trip:
  assumes enc: "encryptPayload L nonce p s = Inr (n, c)"
    and str: "JSON_stringify L p = Some t"
    and parse: "JSON_parse L t = Inr p"
    and utf8: "\<And>m. buffer_from L (Some t) = Inr m \<Longrightarrow> buffer_toString L m = t"
    and box: "\<And>m. box_after L m n s = Inr c \<Longrightarrow> box_open_after L c n s = Inr (Some m)"
    and b58c: "bs58_decode L (JStr (bs58_encode L c)) = Inr c"
    and b58n: "bs58_decode L (JStr (bs58_encode L n)) = Inr n"
  shows "n = nonce
     \<and> decryptPayload L (JStr (bs58_encode L c)) (JStr (bs58_encode L n)) s = Inr p
     \<and> (\<forall>d e k c' n'. bs58_decode L d = Inr c' \<longrightarrow> bs58_decode L e = Inr n' \<longrightarrow>
           box_open_after L c' n' k = Inr None \<longrightarrow>
           decryptPayload L d e k = Inl DecryptionFailed)
     \<and> (\<forall>d e k v. decryptPayload L d e k = Inr v \<longrightarrow>
           (\<exists>c' n' m. bs58_decode L d = Inr c' \<and> bs58_decode L e = Inr n'
              \<and> box_open_after L c' n' k = Inr (Some m)
              \<and> JSON_parse L (buffer_toString L m) = Inr v))"
proof -
  from enc str obtain msg where msg: "buffer_from L (Some t) = Inr msg"
    by (cases "buffer_from L (Some t)") (simp_all add: encryptPayload_def)
  from enc str msg have ct: "box_after L msg nonce s = Inr c" and nn: "n = nonce"
    by (cases "box_after L msg nonce s"; simp add: encryptPayload_def)+
  have "box_open_after L c n s = Inr (Some msg)"
    using box ct nn by simp
  moreover have "buffer_toString L msg = t"
    using utf8 msg by simp
  ultimately have "decryptPayload L (JStr (bs58_encode L c)) (JStr (bs58_encode L n)) s = Inr p"
    by (simp add: decryptPayload_def b58c b58n parse)
  with nn show ?thesis
    using decryptPayload_failed decryptPayload_authenticated by blast
qed

text \<open>
  The round trip of \<^verbatim>\<open>{session: null, message: "hello"}\<close> in the small instance, and
  the failure of the same ciphertext under another nonce.
\<close>

theorem payload_round_trip_witness:
  \<open>encryptPayload stub_lib (ascii ''N2'') stub_payload (ascii ''PKSK'')
     = Inr (ascii ''N2'', ascii ''PKSKN2{"session":null,"message":"hello"}'')
   \<and> decryptPayload stub_lib
       (JStr (bs58_encode stub_lib (ascii ''PKSKN2{"session":null,"message":"hello"}'')))
       (JStr (bs58_encode stub_lib (ascii ''N2''))) (ascii ''PKSK'')
     = Inr stub_payload
   \<and> box_open_after stub_lib (ascii ''PKSKN2{"session":null,"message":"hello"}'')
       (ascii ''N3'') (ascii ''PKSK'') = Inr None
   \<and> decryptPayload stub_lib (JStr ''PKSKN2{"session":null,"message":"hello"}'') (JStr ''N3'')
       (ascii ''PKSK'')
     = Inl DecryptionFailed\<close>
proof -
  let ?c = \<open>ascii ''PKSKN2{"session":null,"message":"hello"}''\<close>
  let ?t = \<open>''{"session":null,"message":"hello"}''\<close>
  have enc: "encryptPayload stub_lib (ascii ''N2'') stub_payload (ascii ''PKSK'') = Inr (ascii ''N2'', ?c)"
    by (simp add: stub_payload_def encryptPayload_def stub_simps)
  have str: "JSON_stringify stub_lib stub_payload = Some ?t"
    by (simp add: stub_payload_def stub_simps)
  have parse: "JSON_parse stub_lib ?t = Inr stub_payload"
    by (simp add: stub_payload_def stub_simps)
  have utf8: "\<And>m. buffer_from stub_lib (Some ?t) = Inr m \<Longrightarrow> buffer_toString stub_lib m = ?t"
    by (auto simp: stub_simps)
  have box: "\<And>m. box_after stub_lib m (ascii ''N2'') (ascii ''PKSK'') = Inr ?c \<Longrightarrow>
      box_open_after stub_lib ?c (ascii ''N2'') (ascii ''PKSK'') = Inr (Some m)"
    by (rule stub_box_round_trip)
  have b58c: "bs58_decode stub_lib (JStr (bs58_encode stub_lib ?c)) = Inr ?c"
    by (simp add: stub_simps)
  have b58n: "bs58_decode stub_lib (JStr (bs58_encode stub_lib (ascii ''N2''))) = Inr (ascii ''N2'')"
    by (simp add: stub_simps)
  have d1: "bs58_decode stub_lib (JStr ''PKSKN2{\"session\":null,\"message\":\"hello\"}'') = Inr ?c"
    by (simp add: stub_simps)
  have d2: "bs58_decode stub_lib (JStr ''N3'') = Inr (ascii ''N3'')"
    by (simp add: stub_simps)
  have op: "box_open_after stub_lib ?c (ascii ''N3'') (ascii ''PKSK'') = Inr None"
    by (simp add: stub_simps)
  from payload_round_trip[OF enc str parse utf8 box b58c b58n] d1 d2 op enc
  show ?thesis by blast
qed

section \<open>Establishing a session\<close>

text \<open>
  What \<^verbatim>\<open>onResponse\<close> of \<^verbatim>\<open>connect\<close> does when it returns: the four setters were called,
  with the key pair of the call, the shared secret derived from it, and the \<^verbatim>\<open>session\<close>
  and \<^verbatim>\<open>public_key\<close> of the decrypted payload. And when it throws before the payload is
  decrypted and parsed, no setter was called.
\<close>

lemma connect_onResponse_fulfilled:
  assumes "connect_onResponse L kp ps = (Inr (), calls)"
  shows "\<exists>phantomKey secret connectData sess key pk.
      bs58_decode L (nullable (params_get ps (response_param PHANTOM_ENCRYPTION_PUBLIC_KEY)))
        = Inr phantomKey
    \<and> box_before L phantomKey (kp_secretKey kp) = Inr secret
    \<and> decryptPayload L (nullable (params_get ps (response_param DATA)))
        (nullable (params_get ps (response_param NONCE))) secret = Inr connectData
    \<and> field_of connectData ''session'' = Inr sess
    \<and> field_of connectData ''public_key'' = Inr key
    \<and> new_PublicKey L key = Inr pk
    \<and> apply_calls calls st
        = \<lparr>publicKey = Some pk, keypair = Some kp, sharedSecret = Some secret, session = sess\<rparr>"
  using assms
  by (auto simp: connect_onResponse_def apply_calls_def split: sum.splits elim!: lib_call.elims)

lemma connect_onResponse_rejected_early:
  assumes "connect_onResponse L kp ps = (Inl e, calls)"
    and "\<And>phantomKey secret connectData.
      bs58_decode L (nullable (params_get ps (response_param PHANTOM_ENCRYPTION_PUBLIC_KEY)))
        = Inr phantomKey \<Longrightarrow>
      box_before L phantomKey (kp_secretKey kp) = Inr secret \<Longrightarrow>
      decryptPayload L (nullable (params_get ps (response_param DATA)))
        (nullable (params_get ps (response_param NONCE))) secret \<noteq> Inr connectData"
  shows "calls = []"
  using assms
  by (auto simp: connect_onResponse_def split: sum.splits elim!: lib_call.elims)

lemma connect_onResponse_bad_key:
  assumes "bs58_decode L (nullable (params_get ps (response_param PHANTOM_ENCRYPTION_PUBLIC_KEY)))
             = Inr phantomKey"
    and "box_before L phantomKey (kp_secretKey kp) = Inr secret"
    and "decryptPayload L (nullable (params_get ps (response_param DATA)))
           (nullable (params_get ps (response_param NONCE))) secret = Inr connectData"
    and "field_of connectData ''session'' = Inr sess"
    and "field_of connectData ''public_key'' = Inr key"
    and "new_PublicKey L key = Inl m"
  shows "connect_onResponse L kp ps =
           (Inl (Foreign m), [SetKeypair (Some kp), SetSharedSecret (Some secret), SetSession sess])"
  using assms by (simp add: connect_onResponse_def)

lemma connect_onResponse_null_payload:
  assumes "bs58_decode L (nullable (params_get ps (response_param PHANTOM_ENCRYPTION_PUBLIC_KEY)))
             = Inr phantomKey"
    and "box_before L phantomKey (kp_secretKey kp) = Inr secret"
    and "decryptPayload L (nullable (params_get ps (response_param DATA)))
           (nullable (params_get ps (response_param NONCE))) secret = Inr JNull"
  shows "connect_onResponse L kp ps =
           (Inl (Foreign ''TypeError: Cannot read properties of null''),
            [SetKeypair (Some kp), SetSharedSecret (Some secret)])"
  using assms by (simp add: connect_onResponse_def)

lemma emit_connect:
  assumes "new_URL L (string_replace L u (protocol cfg) (appUrl cfg)) = Inr parsedUrl"
    and "regexp_test L (redirect_route OnConnect) (pathname parsedUrl)"
    and "\<not> truthy (params_get (searchParams parsedUrl) ''errorCode'')"
    and "connect_onResponse L kp (searchParams parsedUrl) = (r, calls)"
  shows "promise (fst (emit L cfg u (connect L cfg kp w)))
           = (case r of Inl e \<Rightarrow> Rejected e | Inr v \<Rightarrow> Fulfilled v)"
    and "hooks (snd (emit L cfg u (connect L cfg kp w))) = apply_calls calls (hooks w)"
  using assms
  by (auto simp: connect_def emit_def call_listener_def run_finally_def listener_def
      waitForResponse_def addEventListener_def registered_def openURL_def Let_def nth_append
      split: sum.splits)

text \<open>
  Claim C1 does not hold of the code. \<^verbatim>\<open>onResponse\<close> calls \<^verbatim>\<open>setKeypair\<close>,
  \<^verbatim>\<open>setSharedSecret\<close> and \<^verbatim>\<open>setSession\<close> before it evaluates
  \<^verbatim>\<open>new PublicKey(connectData.public_key)\<close>: when the payload decrypts and parses but its
  public key is malformed, \<^verbatim>\<open>connect\<close> is rejected with the constructor's error and
  three of the four state variables have been set, \<^verbatim>\<open>publicKey\<close> being left as it was.
\<close>

theorem connect_rejected_after_setters:
  assumes "new_URL L (string_replace L u (protocol cfg) (appUrl cfg)) = Inr parsedUrl"
    and "regexp_test L (redirect_route OnConnect) (pathname parsedUrl)"
    and "\<not> truthy (params_get (searchParams parsedUrl) ''errorCode'')"
    and "bs58_decode L (nullable (params_get (searchParams parsedUrl)
             (response_param PHANTOM_ENCRYPTION_PUBLIC_KEY))) = Inr phantomKey"
    and "box_before L phantomKey (kp_secretKey kp) = Inr secret"
    and "decryptPayload L (nullable (params_get (searchParams parsedUrl) (response_param DATA)))
           (nullable (params_get (searchParams parsedUrl) (response_param NONCE))) secret
           = Inr connectData"
    and "field_of connectData ''session'' = Inr sess"
    and "field_of connectData ''public_key'' = Inr key"
    and "new_PublicKey L key = Inl m"
  shows "promise (fst (emit L cfg u (connect L cfg kp w))) = Rejected (Foreign m)
       \<and> hooks (snd (emit L cfg u (connect L cfg kp w)))
           = (hooks w)\<lparr>keypair := Some kp, sharedSecret := Some secret, session := sess\<rparr>"
  using emit_connect[OF assms(1-3) connect_onResponse_bad_key[OF assms(4-9)], where w = w]
  by (simp add: apply_calls_def)

text \<open>
  The run at a concrete input: from the initial state, a callback whose envelope decrypts
  to \<^verbatim>\<open>{"session":"s1","public_key":"pk1"}\<close>.
\<close>

theorem connect_rejected_after_setters_witness:
  "promise (fst (emit stub_lib stub_config callback_bad_key
               (connect stub_lib stub_config stub_keypair initial_world)))
     = Rejected (Foreign ''Invalid public key input'')
   \<and> hooks (snd (emit stub_lib stub_config callback_bad_key
               (connect stub_lib stub_config stub_keypair initial_world)))
     = \<lparr>publicKey = None, keypair = Some stub_keypair,
        sharedSecret = Some (ascii ''PKSK''), session = JStr ''s1''\<rparr>
   \<and> hooks initial_world
     = \<lparr>publicKey = None, keypair = None, sharedSecret = None, session = JNull\<rparr>"
proof -
  let ?data = \<open>''PKSKN1{"session":"s1","public_key":"pk1"}''\<close>
  let ?parsed = "\<lparr>pathname = ''/onConnect'',
      searchParams = [(''phantom_encryption_public_key'', ''PK''), (''nonce'', ''N1''),
        (''data'', ?data)]\<rparr>"
  let ?doc = "JObj [(''session'', JStr ''s1''), (''public_key'', JStr ''pk1'')]"
  have h1: "new_URL stub_lib (string_replace stub_lib callback_bad_key
      (protocol stub_config) (appUrl stub_config)) = Inr ?parsed"
    by (simp add: callback_bad_key_def stub_simps)
  have h2: "regexp_test stub_lib (redirect_route OnConnect) (pathname ?parsed)"
    by (simp add: stub_simps)
  have h3: "\<not> truthy (params_get (searchParams ?parsed) ''errorCode'')"
    by (simp add: params_get_def)
  have h4: "bs58_decode stub_lib (nullable (params_get (searchParams ?parsed)
      (response_param PHANTOM_ENCRYPTION_PUBLIC_KEY))) = Inr (ascii ''PK'')"
    by (simp add: params_get_def stub_simps)
  have h5: "box_before stub_lib (ascii ''PK'') (kp_secretKey stub_keypair) = Inr (ascii ''PKSK'')"
    by (simp add: stub_simps)
  have h6: "decryptPayload stub_lib (nullable (params_get (searchParams ?parsed) (response_param DATA)))
      (nullable (params_get (searchParams ?parsed) (response_param NONCE))) (ascii ''PKSK'')
      = Inr ?doc"
    by (simp add: params_get_def decryptPayload_def stub_simps)
  have h7: "field_of ?doc ''session'' = Inr (JStr ''s1'')" by simp
  have h8: "field_of ?doc ''public_key'' = Inr (JStr ''pk1'')" by simp
  have h9: "new_PublicKey stub_lib (JStr ''pk1'') = Inl ''Invalid public key input''"
    by (simp add: stub_simps)
  from connect_rejected_after_setters[OF h1 h2 h3 h4 h5 h6 h7 h8 h9, of initial_world]
  show ?thesis by (simp add: initial_world_def initial_state_def)
qed

section \<open>The guard of the sign operations\<close>

text \<open>
  What the guard of the sign operations does. \<^verbatim>\<open>signMessage\<close> fails with "Wallet is not
  connected" exactly when \<^verbatim>\<open>sharedSecret\<close> or \<^verbatim>\<open>keypair\<close> is \<^verbatim>\<open>null\<close>, and so does
  \<^verbatim>\<open>signTransaction\<close> for a transaction that serializes; neither changes the state or the
  transport then. \<^verbatim>\<open>session\<close> is not tested: with it \<^verbatim>\<open>null\<close> and the other two set, the
  request is dispatched, and its payload is the encryption of an object whose \<^verbatim>\<open>session\<close>
  is \<^verbatim>\<open>null\<close>.
\<close>

lemma encryptPayload_error: "encryptPayload L n p k = Inl e \<Longrightarrow> \<exists>m. e = Foreign m"
  by (auto simp: encryptPayload_def split: sum.splits elim: lib_call.elims)

lemma signMessage_guard:
  "(fst (signMessage L cfg n m w) = Inl NotConnected)
     = (sharedSecret (hooks w) = None \<or> keypair (hooks w) = None)"
  by (auto simp: signMessage_def Let_def split: option.splits sum.splits prod.splits
      dest: encryptPayload_error)

lemma signTransaction_guard:
  assumes "serialize L tx = Inr raw"
  shows "(fst (signTransaction L cfg n tx w) = Inl NotConnected)
     = (sharedSecret (hooks w) = None \<or> keypair (hooks w) = None)"
  using assms
  by (auto simp: signTransaction_def Let_def split: option.splits sum.splits prod.splits
      dest: encryptPayload_error)

lemma sign_not_connected:
  assumes "sharedSecret (hooks w) = None \<or> keypair (hooks w) = None"
  shows "signMessage L cfg n m w = (Inl NotConnected, w)"
    and "serialize L tx = Inr raw \<Longrightarrow> signTransaction L cfg n tx w = (Inl NotConnected, w)"
    and "serialize L tx = Inl msg \<Longrightarrow> signTransaction L cfg n tx w = (Inl (Foreign msg), w)"
  using assms
  by (auto simp: signMessage_def signTransaction_def split: option.splits)

lemma signMessage_null_session:
  assumes "sharedSecret (hooks w) = Some k" and "keypair (hooks w) = Some kp"
    and "session (hooks w) = JNull"
    and "encryptPayload L n (JObj [(''session'', JNull), (''message'', JStr (bs58_encode L m))]) k
           = Inr (n', c)"
  shows "\<exists>p. fst (signMessage L cfg n m w) = Inr p"
    and "opened (Linking (snd (signMessage L cfg n m w))) = opened (Linking w) @
           [buildUrl L (request_route SignMessage)
             [(''dapp_encryption_public_key'', bs58_encode L (kp_publicKey kp)),
              (''nonce'', bs58_encode L n'),
              (''redirect_link'', protocol cfg @ redirect_route OnSignMessage),
              (''payload'', bs58_encode L c)]]"
  using assms
  by (simp_all add: signMessage_def Let_def waitForResponse_def addEventListener_def openURL_def)

lemma signTransaction_null_session:
  assumes "serialize L tx = Inr raw"
    and "sharedSecret (hooks w) = Some k" and "keypair (hooks w) = Some kp"
    and "session (hooks w) = JNull"
    and "encryptPayload L n
           (JObj [(''session'', JNull), (''transaction'', JStr (bs58_encode L raw))]) k
           = Inr (n', c)"
  shows "\<exists>p. fst (signTransaction L cfg n tx w) = Inr p"
    and "opened (Linking (snd (signTransaction L cfg n tx w))) = opened (Linking w) @
           [buildUrl L (request_route SignTransaction)
             [(''dapp_encryption_public_key'', bs58_encode L (kp_publicKey kp)),
              (''nonce'', bs58_encode L n'),
              (''redirect_link'', protocol cfg @ redirect_route OnSignTransaction),
              (''payload'', bs58_encode L c)]]"
  using assms
  by (simp_all add: signTransaction_def Let_def waitForResponse_def addEventListener_def openURL_def)

text \<open>
  Claim C2 does not hold of \<^verbatim>\<open>signTransaction\<close>, which serializes the transaction before
  it tests the guard (\<^verbatim>\<open>signMessage\<close> tests the guard first): for a transaction that does
  not serialize, it throws the error of \<^verbatim>\<open>serialize\<close>, in every state and so in a
  disconnected one; the state and the transport are left as they were.
\<close>

theorem signTransaction_serializes_before_guard:
  assumes "serialize L tx = Inl msg"
  shows "signTransaction L cfg n tx w = (Inl (Foreign msg), w)"
  using assms by (simp add: signTransaction_def)

text \<open>
  The run at a concrete input: the initial state, a transaction without a recent
  blockhash.
\<close>

theorem signTransaction_serializes_before_guard_witness:
  "sharedSecret (hooks initial_world) = None \<and> keypair (hooks initial_world) = None
   \<and> serialize stub_lib (StubTx None (ascii ''body'')) = Inl ''Transaction recentBlockhash required''
   \<and> signTransaction stub_lib stub_config (ascii ''N2'') (StubTx None (ascii ''body'')) initial_world
       = (Inl (Foreign ''Transaction recentBlockhash required''), initial_world)"
proof -
  have s: "serialize stub_lib (StubTx None (ascii ''body'')) = Inl ''Transaction recentBlockhash required''"
    by (simp add: stub_simps)
  from signTransaction_serializes_before_guard[OF s, of stub_config "ascii ''N2''" initial_world] s
  show ?thesis by (simp add: initial_world_def initial_state_def)
qed

text \<open>
  Claim C10 does not hold of \<^verbatim>\<open>signTransaction\<close>, by the same order of evaluation: with
  \<^verbatim>\<open>sharedSecret\<close> or \<^verbatim>\<open>keypair\<close> \<^verbatim>\<open>null\<close> and a transaction that does not serialize,
  what \<^verbatim>\<open>signTransaction\<close> throws is not "Wallet is not connected", while \<^verbatim>\<open>signMessage\<close>
  in the same state throws it.
\<close>

theorem guard_not_reached:
  assumes "serialize L tx = Inl msg"
    and "sharedSecret (hooks w) = None \<or> keypair (hooks w) = None"
  shows "fst (signTransaction L cfg n tx w) \<noteq> Inl NotConnected
       \<and> fst (signMessage L cfg n' m w) = Inl NotConnected"
  using assms by (auto simp: signTransaction_def signMessage_def split: option.splits)

text \<open>
  The run at a concrete input: the state after a successful \<^verbatim>\<open>connect\<close> and a
  \<^verbatim>\<open>disconnect\<close>, a transaction without a recent blockhash.
\<close>

theorem guard_not_reached_witness:
  "sharedSecret (hooks world_after_disconnect) = None
   \<and> fst (signTransaction stub_lib stub_config (ascii ''N2'') (StubTx None (ascii ''body''))
         world_after_disconnect)
       = Inl (Foreign ''Transaction recentBlockhash required'')
   \<and> fst (signTransaction stub_lib stub_config (ascii ''N2'') (StubTx None (ascii ''body''))
         world_after_disconnect)
       \<noteq> Inl NotConnected
   \<and> fst (signMessage stub_lib stub_config (ascii ''N2'') (ascii ''hello'') world_after_disconnect)
       = Inl NotConnected"
proof -
  have s: "serialize stub_lib (StubTx None (ascii ''body'')) = Inl ''Transaction recentBlockhash required''"
    by (simp add: stub_simps)
  have d: "sharedSecret (hooks world_after_disconnect) = None
      \<or> keypair (hooks world_after_disconnect) = None"
    by (simp add: world_after_disconnect_def disconnect_def apply_calls_def)
  have e: "fst (signTransaction stub_lib stub_config (ascii ''N2'') (StubTx None (ascii ''body''))
         world_after_disconnect) = Inl (Foreign ''Transaction recentBlockhash required'')"
    by (simp add: signTransaction_def s)
  have n: "sharedSecret (hooks world_after_disconnect) = None"
    by (simp add: world_after_disconnect_def disconnect_def apply_calls_def)
  from guard_not_reached[OF s d, of stub_config "ascii ''N2''" "ascii ''N2''" "ascii ''hello''"] e n
  show ?thesis by blast
qed

end
